theory Spec2Isabelle
  imports
    Main
    "HOL-Library.Word"
    "HOL-Library.Sublist"
    "HOL-Library.Finite_Map"
    "HOL-Library.Char_ord"
    "HOL-Library.List_Lexorder"
begin

section \<open>Go values used by rulesets.go\<close>

text \<open>
  A Go \<^verbatim>\<open>string\<close> and a \<^verbatim>\<open>[]byte\<close> are byte sequences: \<^typ>\<open>string\<close>.
  A slice \<^verbatim>\<open>[]T\<close> is \<^typ>\<open>'a list option\<close>: \<^term>\<open>None\<close> is the nil slice and
  \<^term>\<open>Some []\<close> the empty slice \<^verbatim>\<open>[]T{}\<close>, which Go tells apart. A pointer \<^verbatim>\<open>*T\<close>
  to a value nobody else holds is \<^typ>\<open>'a option\<close>; a \<^verbatim>\<open>map[string]T\<close> is an optional
  finite map (nil or allocated). Go's \<^verbatim>\<open>int\<close> is the 64-bit one.
\<close>

type_synonym bytes = string
type_synonym go_int = "64 word"

subsection \<open>Errors\<close>

text \<open>
  \<^verbatim>\<open>error\<close> values: those made by \<^verbatim>\<open>github.com/pkg/errors\<close> (\<^verbatim>\<open>errors.New\<close>,
  \<^verbatim>\<open>errors.Wrap\<close>), the two kinds \<^verbatim>\<open>encoding/json\<close> reports when it decodes, and any
  other error value, known by its message.
\<close>

datatype go_error =
    errors_New string
  | errors_Wrap go_error string
  | SyntaxError
  | UnmarshalTypeError
  | MarshalerError go_error
  | OtherError string

text \<open>
  The \<^verbatim>\<open>Error()\<close> method: \<^verbatim>\<open>errors.Wrap(err, msg)\<close> reads \<^verbatim>\<open>msg + ": " + err.Error()\<close>.
  The texts of the \<^verbatim>\<open>encoding/json\<close> errors are left open.
\<close>

fun Error :: "go_error \<Rightarrow> string" where
  "Error (errors_New msg) = msg"
| "Error (errors_Wrap cause msg) = msg @ '': '' @ Error cause"
| "Error (OtherError msg) = msg"

subsection \<open>JSON documents\<close>

text \<open>
  The document a byte sequence denotes. A number keeps its sign, the magnitude of its
  integer part and the rest of the literal (fraction and exponent as written, empty for an
  integer literal); a string is the byte sequence its literal denotes; an object keeps its
  members in order, duplicates included.
\<close>

datatype json =
    JNull
  | JBool bool
  | JNumber bool nat string
  | JString string
  | JArray "json list"
  | JObject "(string \<times> json) list"

subsection \<open>The data model (lines 69 to 163)\<close>

record RulesetRuleActionParametersURIPath =
  Path_Expression :: string

record RulesetRuleActionParametersURIQuery =
  Query_Value :: string
  Query_Expression :: string

record RulesetRuleActionParametersURI =
  URI_Path :: RulesetRuleActionParametersURIPath
  URI_Query :: RulesetRuleActionParametersURIQuery
  URI_Origin :: bool

record RulesetRuleActionParametersHTTPHeader =
  Header_Operation :: string
  Header_Value :: string
  Header_Expression :: string

record RulesetRuleActionParameters =
  AP_ID :: string
  AP_Ruleset :: string
  AP_Increment :: go_int
  AP_URI :: RulesetRuleActionParametersURI
  AP_Headers :: "(string, RulesetRuleActionParametersHTTPHeader) fmap option"
  AP_Products :: "string list option"

text \<open>\<^typ>\<open>'t\<close> is \<^verbatim>\<open>time.Time\<close>.\<close>

record 't RulesetRule =
  Rule_ID :: string
  Rule_Version :: string
  Rule_Action :: string
  Rule_ActionParameters :: "RulesetRuleActionParameters option"
  Rule_Expression :: string
  Rule_Description :: string
  Rule_LastUpdated :: "'t option"
  Rule_Ref :: string
  Rule_Enabled :: bool
  Rule_Categories :: "string list option"
  Rule_ScoreThreshold :: go_int

record 't Ruleset =
  ID :: string
  Name :: string
  Description :: string
  Kind :: string
  Version :: string
  LastUpdated :: "'t option"
  Phase :: string
  Rules :: "'t RulesetRule list option"

record 't UpdateRulesetRequest =
  Req_Description :: string
  Req_Rules :: "'t RulesetRule list option"

subsection \<open>The request executor\<close>

text \<open>
  The last argument of \<^verbatim>\<open>makeRequestContext\<close> is an \<^verbatim>\<open>interface{}\<close>; this file passes
  \<^verbatim>\<open>nil\<close>, a \<^verbatim>\<open>Ruleset\<close> or an \<^verbatim>\<open>UpdateRulesetRequest\<close>.
\<close>

datatype 't params =
    NoParams
  | RulesetParams "'t Ruleset"
  | UpdateParams "'t UpdateRulesetRequest"

text \<open>
  \<^verbatim>\<open>api.makeRequestContext(ctx, method, uri, params)\<close> is declared outside this file. It is a
  parameter: a function of the call and of the state of the world \<^typ>\<open>'w\<close> (the network,
  the remote service), which returns the response bytes, the error and the new state.
\<close>

record ('c, 't, 'w) API =
  makeRequestContext ::
    "'c \<Rightarrow> string \<Rightarrow> string \<Rightarrow> 't params \<Rightarrow> 'w \<Rightarrow> (bytes \<times> go_error option) \<times> 'w"

text \<open>The method names of \<^verbatim>\<open>net/http\<close>.\<close>

definition MethodGet :: string where "MethodGet = ''GET''"
definition MethodPost :: string where "MethodPost = ''POST''"
definition MethodPut :: string where "MethodPut = ''PUT''"
definition MethodDelete :: string where "MethodDelete = ''DELETE''"

text \<open>
  What this file uses and does not hold, as parameters of the model:
  \<^item> the two error markers of the package, \<^verbatim>\<open>errUnmarshalError\<close> and
    \<^verbatim>\<open>errMakeRequestError\<close>;
  \<^item> the struct \<^verbatim>\<open>Response\<close> that every response type embeds: \<open>Response_member k j\<close>
    is what decoding the member \<open>k\<close> with value \<open>j\<close> into it does to the decoder (it fails,
    or it keeps or sets the saved error; a key that is no field of \<^verbatim>\<open>Response\<close> changes
    nothing);
  \<^item> the JSON methods of \<^verbatim>\<open>time.Time\<close>.
\<close>

record 't externals =
  errUnmarshalError :: string
  errMakeRequestError :: string
  Response_member :: "string \<Rightarrow> json \<Rightarrow> go_error option \<Rightarrow> go_error + go_error option"
  Time_MarshalJSON :: "'t \<Rightarrow> go_error + json"
  Time_UnmarshalJSON :: "json \<Rightarrow> go_error + 't"

text \<open>
  Modelled from the spec: the route roots \<^verbatim>\<open>ZoneRouteRoot\<close> and \<^verbatim>\<open>AccountRouteRoot\<close>, of
  the string type \<^verbatim>\<open>RouteRoot\<close>, are declared outside this file; the specification gives
  the scope segments as "zones" and "accounts".
\<close>

definition ZoneRouteRoot :: string where "ZoneRouteRoot = ''zones''"
definition AccountRouteRoot :: string where "AccountRouteRoot = ''accounts''"

section \<open>\<^verbatim>\<open>encoding/json\<close> on the types of this file\<close>

subsection \<open>UTF-8\<close>

definition byte :: "char \<Rightarrow> nat" where
  "byte c = of_char c"

text \<open>
  \<^verbatim>\<open>utf8.DecodeRune\<close>: \<open>rune_tail s\<close> is the number of bytes that follow the first in the
  well-formed sequence at the head of \<open>s\<close>, and \<^term>\<open>None\<close> when there is none (Go then
  returns \<^verbatim>\<open>RuneError\<close> with width 1).
\<close>

definition continuation :: "char \<Rightarrow> bool" where
  "continuation c \<longleftrightarrow> 0x80 \<le> byte c \<and> byte c \<le> 0xBF"

definition tail_ok :: "nat \<Rightarrow> nat \<Rightarrow> nat \<Rightarrow> string \<Rightarrow> nat option" where
  "tail_ok lo hi n r =
     (if n \<le> length r \<and> lo \<le> byte (hd r) \<and> byte (hd r) \<le> hi
         \<and> list_all continuation (take (n - 1) (tl r))
      then Some n else None)"

definition rune_tail :: "string \<Rightarrow> nat option" where
  "rune_tail s =
     (case s of
        [] \<Rightarrow> None
      | c # r \<Rightarrow>
          let b = byte c in
          if b < 0x80 then Some 0
          else if b < 0xC2 then None
          else if b \<le> 0xDF then tail_ok 0x80 0xBF 1 r
          else if b = 0xE0 then tail_ok 0xA0 0xBF 2 r
          else if b \<le> 0xEC then tail_ok 0x80 0xBF 2 r
          else if b = 0xED then tail_ok 0x80 0x9F 2 r
          else if b \<le> 0xEF then tail_ok 0x80 0xBF 2 r
          else if b = 0xF0 then tail_ok 0x90 0xBF 3 r
          else if b \<le> 0xF3 then tail_ok 0x80 0xBF 3 r
          else if b = 0xF4 then tail_ok 0x80 0x8F 3 r
          else None)"

text \<open>The encoding of U+FFFD, and a string with every ill-formed byte replaced by it.\<close>

definition RuneError :: string where
  "RuneError = [CHR 0xEF, CHR 0xBF, CHR 0xBD]"

fun coerceUTF8 :: "string \<Rightarrow> string" where
  "coerceUTF8 [] = []"
| "coerceUTF8 (c # cs) =
     (case rune_tail (c # cs) of
        None \<Rightarrow> RuneError @ coerceUTF8 cs
      | Some n \<Rightarrow> c # take n cs @ coerceUTF8 (drop n cs))"

text \<open>\<^verbatim>\<open>utf8.EncodeRune\<close> of a code point.\<close>

definition EncodeRune :: "nat \<Rightarrow> string" where
  "EncodeRune r =
     (if r < 0x80 then [char_of r]
      else if r < 0x800 then [char_of (0xC0 + r div 64), char_of (0x80 + r mod 64)]
      else if (0xD800 \<le> r \<and> r \<le> 0xDFFF) \<or> 0x10FFFF < r then RuneError
      else if r < 0x10000 then
        [char_of (0xE0 + r div 4096), char_of (0x80 + r div 64 mod 64), char_of (0x80 + r mod 64)]
      else
        [char_of (0xF0 + r div 262144), char_of (0x80 + r div 4096 mod 64),
         char_of (0x80 + r div 64 mod 64), char_of (0x80 + r mod 64)])"

subsection \<open>Reading a document: the scanner of \<^verbatim>\<open>encoding/json\<close>\<close>

definition is_space :: "char \<Rightarrow> bool" where
  "is_space c \<longleftrightarrow> c = CHR '' '' \<or> c = CHR 0x09 \<or> c = CHR 0x0D \<or> c = CHR 0x0A"

fun skip_space :: "string \<Rightarrow> string" where
  "skip_space [] = []"
| "skip_space (c # cs) = (if is_space c then skip_space cs else c # cs)"

definition is_digit :: "char \<Rightarrow> bool" where
  "is_digit c \<longleftrightarrow> 48 \<le> byte c \<and> byte c \<le> 57"

definition hex_value :: "char \<Rightarrow> nat option" where
  "hex_value c =
     (let b = byte c in
      if 48 \<le> b \<and> b \<le> 57 then Some (b - 48)
      else if 97 \<le> b \<and> b \<le> 102 then Some (b - 87)
      else if 65 \<le> b \<and> b \<le> 70 then Some (b - 55)
      else None)"

definition is_hex :: "char \<Rightarrow> bool" where
  "is_hex c \<longleftrightarrow> hex_value c \<noteq> None"

text \<open>
  A string literal after its opening quote: its body as written and what follows the
  closing quote. A control character, an unknown escape or a missing quote is an error.
\<close>

definition cons_some :: "string \<Rightarrow> (string \<times> string) option \<Rightarrow> (string \<times> string) option" where
  "cons_some p r = (case r of None \<Rightarrow> None | Some (s, rest) \<Rightarrow> Some (p @ s, rest))"

fun scan_string :: "string \<Rightarrow> (string \<times> string) option" where
  "scan_string [] = None"
| "scan_string (c # cs) =
     (if c = CHR 0x22 then Some ([], cs)
      else if c = CHR 0x5C then
        (case cs of
           [] \<Rightarrow> None
         | e # r \<Rightarrow>
             if e \<in> set ''bfnrt/'' \<or> e = CHR 0x5C \<or> e = CHR 0x22
             then cons_some [c, e] (scan_string r)
             else if e = CHR ''u'' \<and> 4 \<le> length r \<and> list_all is_hex (take 4 r)
             then cons_some (c # e # take 4 r) (scan_string (drop 4 r))
             else None)
      else if byte c < 0x20 then None
      else cons_some [c] (scan_string cs))"

text \<open>
  \<^verbatim>\<open>unquote\<close>: the bytes a literal's body denotes. An escape \<^verbatim>\<open>\u\<close> is a UTF-16 unit; two
  that form a surrogate pair are one code point, a lone surrogate is U+FFFD; bytes that
  are not well-formed UTF-8 are replaced by U+FFFD.
\<close>

definition getu4 :: "string \<Rightarrow> nat option" where
  "getu4 s =
     (case s of
        b # u # h1 # h2 # h3 # h4 # _ \<Rightarrow>
          if b = CHR 0x5C \<and> u = CHR ''u'' then
            (case (hex_value h1, hex_value h2, hex_value h3, hex_value h4) of
               (Some a, Some b, Some c, Some d) \<Rightarrow> Some (((a * 16 + b) * 16 + c) * 16 + d)
             | _ \<Rightarrow> None)
          else None
      | _ \<Rightarrow> None)"

definition simple_escape :: "char \<Rightarrow> char option" where
  "simple_escape e =
     (if e = CHR 0x22 \<or> e = CHR 0x5C \<or> e = CHR ''/'' \<or> e = CHR 0x27 then Some e
      else if e = CHR ''b'' then Some (CHR 0x08)
      else if e = CHR ''f'' then Some (CHR 0x0C)
      else if e = CHR ''n'' then Some (CHR 0x0A)
      else if e = CHR ''r'' then Some (CHR 0x0D)
      else if e = CHR ''t'' then Some (CHR 0x09)
      else None)"

definition app_some :: "string \<Rightarrow> string option \<Rightarrow> string option" where
  "app_some p r = (case r of None \<Rightarrow> None | Some s \<Rightarrow> Some (p @ s))"

fun unquote :: "string \<Rightarrow> string option" where
  "unquote [] = Some []"
| "unquote (c # cs) =
     (if c = CHR 0x5C then
        (case cs of
           [] \<Rightarrow> None
         | e # r \<Rightarrow>
             if e = CHR ''u'' then
               (case getu4 (c # cs) of
                  None \<Rightarrow> None
                | Some rr \<Rightarrow>
                    if 0xD800 \<le> rr \<and> rr < 0xE000 then
                      (case getu4 (drop 4 r) of
                         None \<Rightarrow> app_some RuneError (unquote (drop 4 r))
                       | Some rr1 \<Rightarrow>
                           if rr < 0xDC00 \<and> 0xDC00 \<le> rr1 \<and> rr1 < 0xE000
                           then app_some (EncodeRune ((rr - 0xD800) * 1024 + (rr1 - 0xDC00) + 0x10000))
                                  (unquote (drop 10 r))
                           else app_some RuneError (unquote (drop 4 r)))
                    else app_some (EncodeRune rr) (unquote (drop 4 r)))
             else
               (case simple_escape e of
                  None \<Rightarrow> None
                | Some x \<Rightarrow> app_some [x] (unquote r)))
      else if c = CHR 0x22 \<or> byte c < 0x20 then None
      else if byte c < 0x80 then app_some [c] (unquote cs)
      else
        (case rune_tail (c # cs) of
           None \<Rightarrow> app_some RuneError (unquote cs)
         | Some n \<Rightarrow> app_some (c # take n cs) (unquote (drop n cs))))"

text \<open>A number literal: \<^verbatim>\<open>-? (0 | [1-9][0-9]*) (. [0-9]+)? ([eE] [+-]? [0-9]+)?\<close>.\<close>

definition digits_value :: "string \<Rightarrow> nat" where
  "digits_value ds = foldl (\<lambda>a c. 10 * a + (byte c - 48)) 0 ds"

definition scan_digits :: "string \<Rightarrow> (string \<times> string) option" where
  "scan_digits cs =
     (if takeWhile is_digit cs = [] then None
      else Some (takeWhile is_digit cs, dropWhile is_digit cs))"

definition scan_fraction :: "string \<Rightarrow> (string \<times> string) option" where
  "scan_fraction cs =
     (case cs of
        [] \<Rightarrow> Some ([], cs)
      | c # r \<Rightarrow>
          if c = CHR ''.'' then cons_some [c] (scan_digits r) else Some ([], cs))"

definition scan_exponent :: "string \<Rightarrow> (string \<times> string) option" where
  "scan_exponent cs =
     (case cs of
        [] \<Rightarrow> Some ([], cs)
      | c # r \<Rightarrow>
          if c = CHR ''e'' \<or> c = CHR ''E'' then
            (case r of
               [] \<Rightarrow> None
             | s # r' \<Rightarrow>
                 if s = CHR ''+'' \<or> s = CHR ''-'' then cons_some [c, s] (scan_digits r')
                 else cons_some [c] (scan_digits r))
          else Some ([], cs))"

definition scan_number :: "string \<Rightarrow> (json \<times> string) option" where
  "scan_number cs =
     (let neg = (cs \<noteq> [] \<and> hd cs = CHR ''-'');
          r0 = (if neg then tl cs else cs)
      in case r0 of
           [] \<Rightarrow> None
         | d # r1 \<Rightarrow>
             if \<not> is_digit d then None
             else
               let ip = (if d = CHR ''0'' then [d] else d # takeWhile is_digit r1);
                   r2 = (if d = CHR ''0'' then r1 else dropWhile is_digit r1)
               in case scan_fraction r2 of
                    None \<Rightarrow> None
                  | Some (fr, r3) \<Rightarrow>
                      (case scan_exponent r3 of
                         None \<Rightarrow> None
                       | Some (ex, r4) \<Rightarrow> Some (JNumber neg (digits_value ip) (fr @ ex), r4)))"

definition scan_word :: "string \<Rightarrow> json \<Rightarrow> string \<Rightarrow> (json \<times> string) option" where
  "scan_word w v cs = (if take (length w) cs = w then Some (v, drop (length w) cs) else None)"

text \<open>
  A value, the elements of an array after \<^verbatim>\<open>[\<close> or a comma, the members of an object after
  \<^verbatim>\<open>{\<close> or a comma. The first argument bounds the recursion (every call reads at least one
  byte); the second is the number of open arrays and objects, which the scanner limits.
\<close>

definition maxNestingDepth :: nat where
  "maxNestingDepth = 10000"

fun parse_value :: "nat \<Rightarrow> nat \<Rightarrow> string \<Rightarrow> (json \<times> string) option"
  and parse_array :: "nat \<Rightarrow> nat \<Rightarrow> string \<Rightarrow> (json list \<times> string) option"
  and parse_object :: "nat \<Rightarrow> nat \<Rightarrow> string \<Rightarrow> ((string \<times> json) list \<times> string) option"
where
  "parse_value 0 d cs = None"
| "parse_value (Suc f) d cs =
     (case skip_space cs of
        [] \<Rightarrow> None
      | c # r \<Rightarrow>
          if c = CHR ''{'' then
            (if maxNestingDepth \<le> d then None
             else if skip_space r \<noteq> [] \<and> hd (skip_space r) = CHR ''}''
             then Some (JObject [], tl (skip_space r))
             else (case parse_object f (Suc d) r of
                     None \<Rightarrow> None
                   | Some (ms, r') \<Rightarrow> Some (JObject ms, r')))
          else if c = CHR ''['' then
            (if maxNestingDepth \<le> d then None
             else if skip_space r \<noteq> [] \<and> hd (skip_space r) = CHR '']''
             then Some (JArray [], tl (skip_space r))
             else (case parse_array f (Suc d) r of
                     None \<Rightarrow> None
                   | Some (vs, r') \<Rightarrow> Some (JArray vs, r')))
          else if c = CHR 0x22 then
            (case scan_string r of
               None \<Rightarrow> None
             | Some (raw, r') \<Rightarrow>
                 (case unquote raw of None \<Rightarrow> None | Some s \<Rightarrow> Some (JString s, r')))
          else if c = CHR ''-'' \<or> is_digit c then scan_number (c # r)
          else if c = CHR ''t'' then scan_word ''true'' (JBool True) (c # r)
          else if c = CHR ''f'' then scan_word ''false'' (JBool False) (c # r)
          else if c = CHR ''n'' then scan_word ''null'' JNull (c # r)
          else None)"
| "parse_array 0 d cs = None"
| "parse_array (Suc f) d cs =
     (case parse_value f d cs of
        None \<Rightarrow> None
      | Some (v, r) \<Rightarrow>
          (case skip_space r of
             [] \<Rightarrow> None
           | c # r' \<Rightarrow>
               if c = CHR '','' then
                 (case parse_array f d r' of
                    None \<Rightarrow> None
                  | Some (vs, r'') \<Rightarrow> Some (v # vs, r''))
               else if c = CHR '']'' then Some ([v], r')
               else None))"
| "parse_object 0 d cs = None"
| "parse_object (Suc f) d cs =
     (case skip_space cs of
        [] \<Rightarrow> None
      | q # r \<Rightarrow>
          if q \<noteq> CHR 0x22 then None
          else
            (case scan_string r of
               None \<Rightarrow> None
             | Some (raw, r1) \<Rightarrow>
                 (case unquote raw of
                    None \<Rightarrow> None
                  | Some k \<Rightarrow>
                      (case skip_space r1 of
                         [] \<Rightarrow> None
                       | c # r2 \<Rightarrow>
                           if c \<noteq> CHR '':'' then None
                           else
                             (case parse_value f d r2 of
                                None \<Rightarrow> None
                              | Some (v, r3) \<Rightarrow>
                                  (case skip_space r3 of
                                     [] \<Rightarrow> None
                                   | c' # r4 \<Rightarrow>
                                       if c' = CHR '','' then
                                         (case parse_object f d r4 of
                                            None \<Rightarrow> None
                                          | Some (ms, r5) \<Rightarrow> Some ((k, v) # ms, r5))
                                       else if c' = CHR ''}'' then Some ([(k, v)], r4)
                                       else None))))))"

text \<open>A document is one value, with nothing but white space after it.\<close>

definition json_parse :: "bytes \<Rightarrow> json option" where
  "json_parse data =
     (case parse_value (Suc (length data)) 0 data of
        None \<Rightarrow> None
      | Some (v, r) \<Rightarrow> if skip_space r = [] then Some v else None)"

subsection \<open>Decoding: \<^verbatim>\<open>json.Unmarshal\<close> into the types of this file\<close>

text \<open>
  The decoder saves the first type mismatch it meets and goes on; an error of an
  \<^verbatim>\<open>UnmarshalJSON\<close> method stops it. A step of the decoder therefore fails (\<^term>\<open>Inl\<close>) or
  returns the value written so far and the saved error.
\<close>

type_synonym 'a decoding = "go_error + 'a \<times> go_error option"

definition saveError :: "go_error \<Rightarrow> go_error option \<Rightarrow> go_error option" where
  "saveError e saved = (case saved of None \<Rightarrow> Some e | Some _ \<Rightarrow> saved)"

definition store :: "'a decoding \<Rightarrow> ('a \<Rightarrow> 'b) \<Rightarrow> 'b decoding" where
  "store d f = (case d of Inl e \<Rightarrow> Inl e | Inr (x, saved) \<Rightarrow> Inr (f x, saved))"

text \<open>
  A member's key selects the field whose name it equals when letter case is ignored (with
  the two letters outside ASCII that fold to \<^verbatim>\<open>s\<close> and \<^verbatim>\<open>k\<close>). No two names of one struct
  of this file are equal in that sense, so the exact match, which Go prefers, picks the
  same field.
\<close>

fun foldName :: "string \<Rightarrow> string" where
  "foldName [] = []"
| "foldName (c # cs) =
     (if 97 \<le> byte c \<and> byte c \<le> 122 then char_of (byte c - 32) # foldName cs
      else if c = CHR 0xC5 \<and> take 1 cs = [CHR 0xBF] then CHR ''S'' # foldName (drop 1 cs)
      else if c = CHR 0xE2 \<and> take 2 cs = [CHR 0x84, CHR 0xAA] then CHR ''K'' # foldName (drop 2 cs)
      else c # foldName cs)"

definition names :: "string \<Rightarrow> string \<Rightarrow> bool" where
  "names key field \<longleftrightarrow> foldName key = foldName field"

definition decode_string :: "json \<Rightarrow> string \<Rightarrow> go_error option \<Rightarrow> string decoding" where
  "decode_string j cur saved =
     (case j of
        JNull \<Rightarrow> Inr (cur, saved)
      | JString s \<Rightarrow> Inr (s, saved)
      | _ \<Rightarrow> Inr (cur, saveError UnmarshalTypeError saved))"

definition decode_bool :: "json \<Rightarrow> bool \<Rightarrow> go_error option \<Rightarrow> bool decoding" where
  "decode_bool j cur saved =
     (case j of
        JNull \<Rightarrow> Inr (cur, saved)
      | JBool b \<Rightarrow> Inr (b, saved)
      | _ \<Rightarrow> Inr (cur, saveError UnmarshalTypeError saved))"

text \<open>\<^verbatim>\<open>strconv.ParseInt(literal, 10, 64)\<close>: an integer literal within 64 bits.\<close>

definition decode_int :: "json \<Rightarrow> go_int \<Rightarrow> go_error option \<Rightarrow> go_int decoding" where
  "decode_int j cur saved =
     (case j of
        JNull \<Rightarrow> Inr (cur, saved)
      | JNumber neg n rest \<Rightarrow>
          (let v = (if neg then - int n else int n) in
           if rest = [] \<and> - (2 ^ 63) \<le> v \<and> v < 2 ^ 63
           then Inr (word_of_int v, saved)
           else Inr (cur, saveError UnmarshalTypeError saved))
      | _ \<Rightarrow> Inr (cur, saveError UnmarshalTypeError saved))"

fun decode_members ::
  "(string \<Rightarrow> json \<Rightarrow> 'a \<Rightarrow> go_error option \<Rightarrow> 'a decoding)
    \<Rightarrow> (string \<times> json) list \<Rightarrow> 'a \<Rightarrow> go_error option \<Rightarrow> 'a decoding" where
  "decode_members f [] v saved = Inr (v, saved)"
| "decode_members f ((k, j) # ms) v saved =
     (case f k j v saved of
        Inl e \<Rightarrow> Inl e
      | Inr (v', saved') \<Rightarrow> decode_members f ms v' saved')"

text \<open>Into a struct: the members in order, each into the field it names, the others skipped.\<close>

definition decode_struct ::
  "(string \<Rightarrow> json \<Rightarrow> 'a \<Rightarrow> go_error option \<Rightarrow> 'a decoding)
    \<Rightarrow> json \<Rightarrow> 'a \<Rightarrow> go_error option \<Rightarrow> 'a decoding" where
  "decode_struct f j cur saved =
     (case j of
        JNull \<Rightarrow> Inr (cur, saved)
      | JObject ms \<Rightarrow> decode_members f ms cur saved
      | _ \<Rightarrow> Inr (cur, saveError UnmarshalTypeError saved))"

fun decode_elements ::
  "(json \<Rightarrow> 'a \<Rightarrow> go_error option \<Rightarrow> 'a decoding)
    \<Rightarrow> 'a \<Rightarrow> json list \<Rightarrow> go_error option \<Rightarrow> 'a list decoding" where
  "decode_elements f z [] saved = Inr ([], saved)"
| "decode_elements f z (j # js) saved =
     (case f j z saved of
        Inl e \<Rightarrow> Inl e
      | Inr (x, saved') \<Rightarrow> store (decode_elements f z js saved') (\<lambda>xs. x # xs))"

text \<open>
  Into a slice: \<^verbatim>\<open>null\<close> makes it nil, an array replaces it (an empty array by the empty
  slice); each element is decoded into the zero value \<open>z\<close>. (Where a document repeats a
  member, so that the slice already has elements, releases of Go differ on whether an
  element starts from the old one; no response of the examples does.)
\<close>

definition decode_slice ::
  "(json \<Rightarrow> 'a \<Rightarrow> go_error option \<Rightarrow> 'a decoding)
    \<Rightarrow> 'a \<Rightarrow> json \<Rightarrow> 'a list option \<Rightarrow> go_error option \<Rightarrow> 'a list option decoding" where
  "decode_slice f z j cur saved =
     (case j of
        JNull \<Rightarrow> Inr (None, saved)
      | JArray js \<Rightarrow> store (decode_elements f z js saved) Some
      | _ \<Rightarrow> Inr (cur, saveError UnmarshalTypeError saved))"

text \<open>Into a pointer: \<^verbatim>\<open>null\<close> makes it nil; any other value is decoded into what it
  points to, allocated as the zero value \<open>z\<close> when the pointer is nil.\<close>

definition decode_pointer ::
  "(json \<Rightarrow> 'a \<Rightarrow> go_error option \<Rightarrow> 'a decoding)
    \<Rightarrow> 'a \<Rightarrow> json \<Rightarrow> 'a option \<Rightarrow> go_error option \<Rightarrow> 'a option decoding" where
  "decode_pointer f z j cur saved =
     (case j of
        JNull \<Rightarrow> Inr (None, saved)
      | _ \<Rightarrow> store (f j (case cur of None \<Rightarrow> z | Some v \<Rightarrow> v) saved) Some)"

text \<open>Into a map: \<^verbatim>\<open>null\<close> makes it nil; an object's members are added to it (allocated
  when nil), each value decoded into the zero value, under the key as written.\<close>

definition decode_map ::
  "(json \<Rightarrow> 'a \<Rightarrow> go_error option \<Rightarrow> 'a decoding)
    \<Rightarrow> 'a \<Rightarrow> json \<Rightarrow> (string, 'a) fmap option \<Rightarrow> go_error option
    \<Rightarrow> (string, 'a) fmap option decoding" where
  "decode_map f z j cur saved =
     (case j of
        JNull \<Rightarrow> Inr (None, saved)
      | JObject ms \<Rightarrow>
          store
            (decode_members (\<lambda>k j' m s. store (f j' z s) (\<lambda>x. fmupd k x m)) ms
               (case cur of None \<Rightarrow> fmempty | Some m \<Rightarrow> m) saved)
            Some
      | _ \<Rightarrow> Inr (cur, saveError UnmarshalTypeError saved))"

text \<open>Into a \<^verbatim>\<open>*time.Time\<close>: \<^verbatim>\<open>null\<close> makes it nil; any other value goes to
  \<^verbatim>\<open>UnmarshalJSON\<close>, whose error stops the decoder.\<close>

definition decode_time ::
  "'t externals \<Rightarrow> json \<Rightarrow> 't option \<Rightarrow> go_error option \<Rightarrow> 't option decoding" where
  "decode_time ext j cur saved =
     (case j of
        JNull \<Rightarrow> Inr (None, saved)
      | _ \<Rightarrow>
          (case Time_UnmarshalJSON ext j of
             Inl e \<Rightarrow> Inl e
           | Inr t \<Rightarrow> Inr (Some t, saved)))"

text \<open>The zero values.\<close>

definition zero_URIPath :: RulesetRuleActionParametersURIPath where
  "zero_URIPath = \<lparr>Path_Expression = []\<rparr>"

definition zero_URIQuery :: RulesetRuleActionParametersURIQuery where
  "zero_URIQuery = \<lparr>Query_Value = [], Query_Expression = []\<rparr>"

definition zero_URI :: RulesetRuleActionParametersURI where
  "zero_URI = \<lparr>URI_Path = zero_URIPath, URI_Query = zero_URIQuery, URI_Origin = False\<rparr>"

definition zero_HTTPHeader :: RulesetRuleActionParametersHTTPHeader where
  "zero_HTTPHeader = \<lparr>Header_Operation = [], Header_Value = [], Header_Expression = []\<rparr>"

definition zero_ActionParameters :: RulesetRuleActionParameters where
  "zero_ActionParameters =
     \<lparr>AP_ID = [], AP_Ruleset = [], AP_Increment = 0, AP_URI = zero_URI,
      AP_Headers = None, AP_Products = None\<rparr>"

definition zero_RulesetRule :: "'t RulesetRule" where
  "zero_RulesetRule =
     \<lparr>Rule_ID = [], Rule_Version = [], Rule_Action = [], Rule_ActionParameters = None,
      Rule_Expression = [], Rule_Description = [], Rule_LastUpdated = None, Rule_Ref = [],
      Rule_Enabled = False, Rule_Categories = None, Rule_ScoreThreshold = 0\<rparr>"

definition zero_Ruleset :: "'t Ruleset" where
  "zero_Ruleset =
     \<lparr>ID = [], Name = [], Description = [], Kind = [], Version = [], LastUpdated = None,
      Phase = [], Rules = None\<rparr>"

text \<open>One member into each struct, by the \<^verbatim>\<open>json\<close> tags of lines 69 to 132.\<close>

definition member_URIPath ::
  "string \<Rightarrow> json \<Rightarrow> RulesetRuleActionParametersURIPath \<Rightarrow> go_error option
    \<Rightarrow> RulesetRuleActionParametersURIPath decoding" where
  "member_URIPath k j v saved =
     (if names k ''expression''
      then store (decode_string j (Path_Expression v) saved) (\<lambda>x. v\<lparr>Path_Expression := x\<rparr>)
      else Inr (v, saved))"

definition member_URIQuery ::
  "string \<Rightarrow> json \<Rightarrow> RulesetRuleActionParametersURIQuery \<Rightarrow> go_error option
    \<Rightarrow> RulesetRuleActionParametersURIQuery decoding" where
  "member_URIQuery k j v saved =
     (if names k ''value''
      then store (decode_string j (Query_Value v) saved) (\<lambda>x. v\<lparr>Query_Value := x\<rparr>)
      else if names k ''expression''
      then store (decode_string j (Query_Expression v) saved) (\<lambda>x. v\<lparr>Query_Expression := x\<rparr>)
      else Inr (v, saved))"

definition member_URI ::
  "string \<Rightarrow> json \<Rightarrow> RulesetRuleActionParametersURI \<Rightarrow> go_error option
    \<Rightarrow> RulesetRuleActionParametersURI decoding" where
  "member_URI k j v saved =
     (if names k ''path''
      then store (decode_struct member_URIPath j (URI_Path v) saved) (\<lambda>x. v\<lparr>URI_Path := x\<rparr>)
      else if names k ''query''
      then store (decode_struct member_URIQuery j (URI_Query v) saved) (\<lambda>x. v\<lparr>URI_Query := x\<rparr>)
      else if names k ''origin''
      then store (decode_bool j (URI_Origin v) saved) (\<lambda>x. v\<lparr>URI_Origin := x\<rparr>)
      else Inr (v, saved))"

definition member_HTTPHeader ::
  "string \<Rightarrow> json \<Rightarrow> RulesetRuleActionParametersHTTPHeader \<Rightarrow> go_error option
    \<Rightarrow> RulesetRuleActionParametersHTTPHeader decoding" where
  "member_HTTPHeader k j v saved =
     (if names k ''operation''
      then store (decode_string j (Header_Operation v) saved) (\<lambda>x. v\<lparr>Header_Operation := x\<rparr>)
      else if names k ''value''
      then store (decode_string j (Header_Value v) saved) (\<lambda>x. v\<lparr>Header_Value := x\<rparr>)
      else if names k ''expression''
      then store (decode_string j (Header_Expression v) saved) (\<lambda>x. v\<lparr>Header_Expression := x\<rparr>)
      else Inr (v, saved))"

definition member_ActionParameters ::
  "string \<Rightarrow> json \<Rightarrow> RulesetRuleActionParameters \<Rightarrow> go_error option
    \<Rightarrow> RulesetRuleActionParameters decoding" where
  "member_ActionParameters k j v saved =
     (if names k ''id''
      then store (decode_string j (AP_ID v) saved) (\<lambda>x. v\<lparr>AP_ID := x\<rparr>)
      else if names k ''ruleset''
      then store (decode_string j (AP_Ruleset v) saved) (\<lambda>x. v\<lparr>AP_Ruleset := x\<rparr>)
      else if names k ''increment''
      then store (decode_int j (AP_Increment v) saved) (\<lambda>x. v\<lparr>AP_Increment := x\<rparr>)
      else if names k ''uri''
      then store (decode_struct member_URI j (AP_URI v) saved) (\<lambda>x. v\<lparr>AP_URI := x\<rparr>)
      else if names k ''headers''
      then store (decode_map (decode_struct member_HTTPHeader) zero_HTTPHeader j (AP_Headers v) saved)
             (\<lambda>x. v\<lparr>AP_Headers := x\<rparr>)
      else if names k ''products''
      then store (decode_slice decode_string [] j (AP_Products v) saved)
             (\<lambda>x. v\<lparr>AP_Products := x\<rparr>)
      else Inr (v, saved))"

definition member_RulesetRule ::
  "'t externals \<Rightarrow> string \<Rightarrow> json \<Rightarrow> 't RulesetRule \<Rightarrow> go_error option
    \<Rightarrow> 't RulesetRule decoding" where
  "member_RulesetRule ext k j v saved =
     (if names k ''id''
      then store (decode_string j (Rule_ID v) saved) (\<lambda>x. v\<lparr>Rule_ID := x\<rparr>)
      else if names k ''version''
      then store (decode_string j (Rule_Version v) saved) (\<lambda>x. v\<lparr>Rule_Version := x\<rparr>)
      else if names k ''action''
      then store (decode_string j (Rule_Action v) saved) (\<lambda>x. v\<lparr>Rule_Action := x\<rparr>)
      else if names k ''action_parameters''
      then store
             (decode_pointer (decode_struct member_ActionParameters) zero_ActionParameters j
                (Rule_ActionParameters v) saved)
             (\<lambda>x. v\<lparr>Rule_ActionParameters := x\<rparr>)
      else if names k ''expression''
      then store (decode_string j (Rule_Expression v) saved) (\<lambda>x. v\<lparr>Rule_Expression := x\<rparr>)
      else if names k ''description''
      then store (decode_string j (Rule_Description v) saved) (\<lambda>x. v\<lparr>Rule_Description := x\<rparr>)
      else if names k ''last_updated''
      then store (decode_time ext j (Rule_LastUpdated v) saved) (\<lambda>x. v\<lparr>Rule_LastUpdated := x\<rparr>)
      else if names k ''ref''
      then store (decode_string j (Rule_Ref v) saved) (\<lambda>x. v\<lparr>Rule_Ref := x\<rparr>)
      else if names k ''enabled''
      then store (decode_bool j (Rule_Enabled v) saved) (\<lambda>x. v\<lparr>Rule_Enabled := x\<rparr>)
      else if names k ''categories''
      then store (decode_slice decode_string [] j (Rule_Categories v) saved)
             (\<lambda>x. v\<lparr>Rule_Categories := x\<rparr>)
      else if names k ''score_threshold''
      then store (decode_int j (Rule_ScoreThreshold v) saved) (\<lambda>x. v\<lparr>Rule_ScoreThreshold := x\<rparr>)
      else Inr (v, saved))"

definition member_Ruleset ::
  "'t externals \<Rightarrow> string \<Rightarrow> json \<Rightarrow> 't Ruleset \<Rightarrow> go_error option \<Rightarrow> 't Ruleset decoding" where
  "member_Ruleset ext k j v saved =
     (if names k ''id''
      then store (decode_string j (ID v) saved) (\<lambda>x. v\<lparr>ID := x\<rparr>)
      else if names k ''name''
      then store (decode_string j (Name v) saved) (\<lambda>x. v\<lparr>Name := x\<rparr>)
      else if names k ''description''
      then store (decode_string j (Description v) saved) (\<lambda>x. v\<lparr>Description := x\<rparr>)
      else if names k ''kind''
      then store (decode_string j (Kind v) saved) (\<lambda>x. v\<lparr>Kind := x\<rparr>)
      else if names k ''version''
      then store (decode_string j (Version v) saved) (\<lambda>x. v\<lparr>Version := x\<rparr>)
      else if names k ''last_updated''
      then store (decode_time ext j (LastUpdated v) saved) (\<lambda>x. v\<lparr>LastUpdated := x\<rparr>)
      else if names k ''phase''
      then store (decode_string j (Phase v) saved) (\<lambda>x. v\<lparr>Phase := x\<rparr>)
      else if names k ''rules''
      then store
             (decode_slice (decode_struct (member_RulesetRule ext)) zero_RulesetRule j
                (Rules v) saved)
             (\<lambda>x. v\<lparr>Rules := x\<rparr>)
      else Inr (v, saved))"

definition decode_Ruleset ::
  "'t externals \<Rightarrow> json \<Rightarrow> 't Ruleset \<Rightarrow> go_error option \<Rightarrow> 't Ruleset decoding" where
  "decode_Ruleset ext = decode_struct (member_Ruleset ext)"

text \<open>
  The response types (lines 140 to 163) embed \<^verbatim>\<open>Response\<close> and add \<^verbatim>\<open>Result\<close>. The model
  keeps \<^verbatim>\<open>Result\<close>, the only part the operations read. The key \<^verbatim>\<open>result\<close> names the outer
  field; every other member goes to the embedded struct.
\<close>

record 't ListRulesetResponse =
  List_Result :: "'t Ruleset list option"

record 't GetRulesetResponse =
  Get_Result :: "'t Ruleset"

record 't CreateRulesetResponse =
  Create_Result :: "'t Ruleset"

record 't UpdateRulesetResponse =
  Update_Result :: "'t Ruleset"

definition embedded_Response ::
  "'t externals \<Rightarrow> string \<Rightarrow> json \<Rightarrow> 'a \<Rightarrow> go_error option \<Rightarrow> 'a decoding" where
  "embedded_Response ext k j v saved =
     (case Response_member ext k j saved of
        Inl e \<Rightarrow> Inl e
      | Inr saved' \<Rightarrow> Inr (v, saved'))"

definition member_ListRulesetResponse ::
  "'t externals \<Rightarrow> string \<Rightarrow> json \<Rightarrow> 't ListRulesetResponse \<Rightarrow> go_error option
    \<Rightarrow> 't ListRulesetResponse decoding" where
  "member_ListRulesetResponse ext k j v saved =
     (if names k ''result''
      then store (decode_slice (decode_Ruleset ext) zero_Ruleset j (List_Result v) saved)
             (\<lambda>x. v\<lparr>List_Result := x\<rparr>)
      else embedded_Response ext k j v saved)"

definition member_GetRulesetResponse ::
  "'t externals \<Rightarrow> string \<Rightarrow> json \<Rightarrow> 't GetRulesetResponse \<Rightarrow> go_error option
    \<Rightarrow> 't GetRulesetResponse decoding" where
  "member_GetRulesetResponse ext k j v saved =
     (if names k ''result''
      then store (decode_Ruleset ext j (Get_Result v) saved) (\<lambda>x. v\<lparr>Get_Result := x\<rparr>)
      else embedded_Response ext k j v saved)"

definition member_CreateRulesetResponse ::
  "'t externals \<Rightarrow> string \<Rightarrow> json \<Rightarrow> 't CreateRulesetResponse \<Rightarrow> go_error option
    \<Rightarrow> 't CreateRulesetResponse decoding" where
  "member_CreateRulesetResponse ext k j v saved =
     (if names k ''result''
      then store (decode_Ruleset ext j (Create_Result v) saved) (\<lambda>x. v\<lparr>Create_Result := x\<rparr>)
      else embedded_Response ext k j v saved)"

definition member_UpdateRulesetResponse ::
  "'t externals \<Rightarrow> string \<Rightarrow> json \<Rightarrow> 't UpdateRulesetResponse \<Rightarrow> go_error option
    \<Rightarrow> 't UpdateRulesetResponse decoding" where
  "member_UpdateRulesetResponse ext k j v saved =
     (if names k ''result''
      then store (decode_Ruleset ext j (Update_Result v) saved) (\<lambda>x. v\<lparr>Update_Result := x\<rparr>)
      else embedded_Response ext k j v saved)"

text \<open>
  \<^verbatim>\<open>json.Unmarshal(data, &v)\<close>: the bytes are checked first (\<^term>\<open>SyntaxError\<close>), then decoded
  into \<open>v\<close>; the error is the one that stopped the decoder, else the saved one. The value
  is given when there is no error, which is when the operations read it.
\<close>

definition Unmarshal ::
  "(json \<Rightarrow> 'a \<Rightarrow> go_error option \<Rightarrow> 'a decoding) \<Rightarrow> bytes \<Rightarrow> 'a \<Rightarrow> go_error + 'a" where
  "Unmarshal dec data v =
     (case json_parse data of
        None \<Rightarrow> Inl SyntaxError
      | Some j \<Rightarrow>
          (case dec j v None of
             Inl e \<Rightarrow> Inl e
           | Inr (v', saved) \<Rightarrow> (case saved of None \<Rightarrow> Inr v' | Some e \<Rightarrow> Inl e)))"

subsection \<open>Encoding: \<^verbatim>\<open>json.Marshal\<close> of the types of this file\<close>

text \<open>
  The document \<^verbatim>\<open>json.Marshal\<close> writes: the fields in the order of the struct, under the
  names of their tags; a field tagged \<^verbatim>\<open>omitempty\<close> is left out when it is false, 0, a nil
  pointer, or an empty string, slice or map (a struct is never empty). A string is written
  with each byte that is not part of well-formed UTF-8 replaced by U+FFFD. A nil slice is
  \<^verbatim>\<open>null\<close>. The keys of a map are written in byte order.
\<close>

definition encode_string :: "string \<Rightarrow> json" where
  "encode_string s = JString (coerceUTF8 s)"

definition encode_int :: "go_int \<Rightarrow> json" where
  "encode_int n = JNumber (sint n < 0) (nat \<bar>sint n\<bar>) []"

definition omitempty :: "bool \<Rightarrow> string \<Rightarrow> json \<Rightarrow> (string \<times> json) list" where
  "omitempty isEmpty k j = (if isEmpty then [] else [(k, j)])"

definition encode_slice :: "('a \<Rightarrow> json) \<Rightarrow> 'a list option \<Rightarrow> json" where
  "encode_slice f xs = (case xs of None \<Rightarrow> JNull | Some ys \<Rightarrow> JArray (map f ys))"

definition empty_slice :: "'a list option \<Rightarrow> bool" where
  "empty_slice xs = (case xs of None \<Rightarrow> True | Some ys \<Rightarrow> ys = [])"

definition empty_map :: "(string, 'a) fmap option \<Rightarrow> bool" where
  "empty_map m = (case m of None \<Rightarrow> True | Some m' \<Rightarrow> fmdom m' = {||})"

definition encode_map :: "('a \<Rightarrow> json) \<Rightarrow> (string, 'a) fmap option \<Rightarrow> json" where
  "encode_map f m =
     (case m of
        None \<Rightarrow> JNull
      | Some m' \<Rightarrow>
          JObject (map (\<lambda>k. (coerceUTF8 k, f (the (fmlookup m' k))))
                     (sorted_list_of_fset (fmdom m'))))"

definition encode_URIPath :: "RulesetRuleActionParametersURIPath \<Rightarrow> json" where
  "encode_URIPath v =
     JObject (omitempty (Path_Expression v = []) ''expression'' (encode_string (Path_Expression v)))"

definition encode_URIQuery :: "RulesetRuleActionParametersURIQuery \<Rightarrow> json" where
  "encode_URIQuery v =
     JObject
       (omitempty (Query_Value v = []) ''value'' (encode_string (Query_Value v)) @
        omitempty (Query_Expression v = []) ''expression'' (encode_string (Query_Expression v)))"

definition encode_URI :: "RulesetRuleActionParametersURI \<Rightarrow> json" where
  "encode_URI v =
     JObject
       ([(''path'', encode_URIPath (URI_Path v)), (''query'', encode_URIQuery (URI_Query v))] @
        omitempty (\<not> URI_Origin v) ''origin'' (JBool (URI_Origin v)))"

definition encode_HTTPHeader :: "RulesetRuleActionParametersHTTPHeader \<Rightarrow> json" where
  "encode_HTTPHeader v =
     JObject
       (omitempty (Header_Operation v = []) ''operation'' (encode_string (Header_Operation v)) @
        omitempty (Header_Value v = []) ''value'' (encode_string (Header_Value v)) @
        omitempty (Header_Expression v = []) ''expression'' (encode_string (Header_Expression v)))"

definition encode_ActionParameters :: "RulesetRuleActionParameters \<Rightarrow> json" where
  "encode_ActionParameters v =
     JObject
       (omitempty (AP_ID v = []) ''id'' (encode_string (AP_ID v)) @
        omitempty (AP_Ruleset v = []) ''ruleset'' (encode_string (AP_Ruleset v)) @
        omitempty (AP_Increment v = 0) ''increment'' (encode_int (AP_Increment v)) @
        [(''uri'', encode_URI (AP_URI v))] @
        omitempty (empty_map (AP_Headers v)) ''headers'' (encode_map encode_HTTPHeader (AP_Headers v)) @
        omitempty (empty_slice (AP_Products v)) ''products''
          (encode_slice encode_string (AP_Products v)))"

text \<open>A \<^verbatim>\<open>*time.Time\<close> tagged \<^verbatim>\<open>omitempty\<close>: left out when nil, else what \<^verbatim>\<open>MarshalJSON\<close>
  returns; its error ends the encoding.\<close>

definition encode_time ::
  "'t externals \<Rightarrow> string \<Rightarrow> 't option \<Rightarrow> go_error + (string \<times> json) list" where
  "encode_time ext k t =
     (case t of
        None \<Rightarrow> Inr []
      | Some x \<Rightarrow>
          (case Time_MarshalJSON ext x of
             Inl e \<Rightarrow> Inl (MarshalerError e)
           | Inr j \<Rightarrow> Inr [(k, j)]))"

definition encode_RulesetRule :: "'t externals \<Rightarrow> 't RulesetRule \<Rightarrow> go_error + json" where
  "encode_RulesetRule ext v =
     (case encode_time ext ''last_updated'' (Rule_LastUpdated v) of
        Inl e \<Rightarrow> Inl e
      | Inr lu \<Rightarrow>
          Inr (JObject
            (omitempty (Rule_ID v = []) ''id'' (encode_string (Rule_ID v)) @
             omitempty (Rule_Version v = []) ''version'' (encode_string (Rule_Version v)) @
             [(''action'', encode_string (Rule_Action v))] @
             (case Rule_ActionParameters v of
                None \<Rightarrow> []
              | Some p \<Rightarrow> [(''action_parameters'', encode_ActionParameters p)]) @
             [(''expression'', encode_string (Rule_Expression v)),
              (''description'', encode_string (Rule_Description v))] @
             lu @
             omitempty (Rule_Ref v = []) ''ref'' (encode_string (Rule_Ref v)) @
             [(''enabled'', JBool (Rule_Enabled v))] @
             omitempty (empty_slice (Rule_Categories v)) ''categories''
               (encode_slice encode_string (Rule_Categories v)) @
             omitempty (Rule_ScoreThreshold v = 0) ''score_threshold''
               (encode_int (Rule_ScoreThreshold v)))))"

fun encode_all :: "('a \<Rightarrow> go_error + json) \<Rightarrow> 'a list \<Rightarrow> go_error + json list" where
  "encode_all f [] = Inr []"
| "encode_all f (x # xs) =
     (case f x of
        Inl e \<Rightarrow> Inl e
      | Inr j \<Rightarrow> (case encode_all f xs of Inl e \<Rightarrow> Inl e | Inr js \<Rightarrow> Inr (j # js)))"

definition encode_Rules :: "'t externals \<Rightarrow> 't RulesetRule list option \<Rightarrow> go_error + json" where
  "encode_Rules ext rs =
     (case rs of
        None \<Rightarrow> Inr JNull
      | Some xs \<Rightarrow>
          (case encode_all (encode_RulesetRule ext) xs of
             Inl e \<Rightarrow> Inl e
           | Inr js \<Rightarrow> Inr (JArray js)))"

definition encode_Ruleset :: "'t externals \<Rightarrow> 't Ruleset \<Rightarrow> go_error + json" where
  "encode_Ruleset ext v =
     (case encode_time ext ''last_updated'' (LastUpdated v) of
        Inl e \<Rightarrow> Inl e
      | Inr lu \<Rightarrow>
          (case encode_Rules ext (Rules v) of
             Inl e \<Rightarrow> Inl e
           | Inr rs \<Rightarrow>
               Inr (JObject
                 (omitempty (ID v = []) ''id'' (encode_string (ID v)) @
                  [(''name'', encode_string (Name v)),
                   (''description'', encode_string (Description v)),
                   (''kind'', encode_string (Kind v))] @
                  omitempty (Version v = []) ''version'' (encode_string (Version v)) @
                  lu @
                  [(''phase'', encode_string (Phase v)), (''rules'', rs)]))))"

definition encode_UpdateRulesetRequest ::
  "'t externals \<Rightarrow> 't UpdateRulesetRequest \<Rightarrow> go_error + json" where
  "encode_UpdateRulesetRequest ext v =
     (case encode_Rules ext (Req_Rules v) of
        Inl e \<Rightarrow> Inl e
      | Inr rs \<Rightarrow>
          Inr (JObject [(''description'', encode_string (Req_Description v)), (''rules'', rs)]))"

text \<open>The request body of a call: \<^verbatim>\<open>json.Marshal\<close> of its \<^verbatim>\<open>params\<close>, none when nil.\<close>

definition request_body :: "'t externals \<Rightarrow> 't params \<Rightarrow> (go_error + json) option" where
  "request_body ext p =
     (case p of
        NoParams \<Rightarrow> None
      | RulesetParams r \<Rightarrow> Some (encode_Ruleset ext r)
      | UpdateParams u \<Rightarrow> Some (encode_UpdateRulesetRequest ext u))"

section \<open>The operations\<close>

text \<open>\<^verbatim>\<open>listRulesets\<close>, lines 181 to 195, and its two entry points.\<close>

definition listRulesets ::
  "('c, 't, 'w) API \<Rightarrow> 't externals \<Rightarrow> 'c \<Rightarrow> string \<Rightarrow> string \<Rightarrow> 'w
    \<Rightarrow> ('t Ruleset list option \<times> go_error option) \<times> 'w" where
  "listRulesets api ext ctx identifierType identifier w =
     (let uri = ''/'' @ identifierType @ ''/'' @ identifier @ ''/rulesets'';
          ((res, err), w') = makeRequestContext api ctx MethodGet uri NoParams w
      in case err of
           Some e \<Rightarrow> ((Some [], Some e), w')
         | None \<Rightarrow>
             (case Unmarshal (decode_struct (member_ListRulesetResponse ext)) res
                     \<lparr>List_Result = None\<rparr> of
                Inl e \<Rightarrow> ((Some [], Some (errors_Wrap e (errUnmarshalError ext))), w')
              | Inr result \<Rightarrow> ((List_Result result, None), w')))"

definition ListZoneRulesets ::
  "('c, 't, 'w) API \<Rightarrow> 't externals \<Rightarrow> 'c \<Rightarrow> string \<Rightarrow> 'w
    \<Rightarrow> ('t Ruleset list option \<times> go_error option) \<times> 'w" where
  "ListZoneRulesets api ext ctx zoneID = listRulesets api ext ctx ZoneRouteRoot zoneID"

definition ListAccountRulesets ::
  "('c, 't, 'w) API \<Rightarrow> 't externals \<Rightarrow> 'c \<Rightarrow> string \<Rightarrow> 'w
    \<Rightarrow> ('t Ruleset list option \<times> go_error option) \<times> 'w" where
  "ListAccountRulesets api ext ctx accountID = listRulesets api ext ctx AccountRouteRoot accountID"

text \<open>\<^verbatim>\<open>getRuleset\<close>, lines 213 to 226.\<close>

definition getRuleset ::
  "('c, 't, 'w) API \<Rightarrow> 't externals \<Rightarrow> 'c \<Rightarrow> string \<Rightarrow> string \<Rightarrow> string \<Rightarrow> 'w
    \<Rightarrow> ('t Ruleset \<times> go_error option) \<times> 'w" where
  "getRuleset api ext ctx identifierType identifier rulesetID w =
     (let uri = ''/'' @ identifierType @ ''/'' @ identifier @ ''/rulesets/'' @ rulesetID;
          ((res, err), w') = makeRequestContext api ctx MethodGet uri NoParams w
      in case err of
           Some e \<Rightarrow> ((zero_Ruleset, Some e), w')
         | None \<Rightarrow>
             (case Unmarshal (decode_struct (member_GetRulesetResponse ext)) res
                     \<lparr>Get_Result = zero_Ruleset\<rparr> of
                Inl e \<Rightarrow> ((zero_Ruleset, Some (errors_Wrap e (errUnmarshalError ext))), w')
              | Inr result \<Rightarrow> ((Get_Result result, None), w')))"

definition GetZoneRuleset ::
  "('c, 't, 'w) API \<Rightarrow> 't externals \<Rightarrow> 'c \<Rightarrow> string \<Rightarrow> string \<Rightarrow> 'w
    \<Rightarrow> ('t Ruleset \<times> go_error option) \<times> 'w" where
  "GetZoneRuleset api ext ctx zoneID rulesetID =
     getRuleset api ext ctx ZoneRouteRoot zoneID rulesetID"

definition GetAccountRuleset ::
  "('c, 't, 'w) API \<Rightarrow> 't externals \<Rightarrow> 'c \<Rightarrow> string \<Rightarrow> string \<Rightarrow> 'w
    \<Rightarrow> ('t Ruleset \<times> go_error option) \<times> 'w" where
  "GetAccountRuleset api ext ctx accountID rulesetID =
     getRuleset api ext ctx AccountRouteRoot accountID rulesetID"

text \<open>\<^verbatim>\<open>createRuleset\<close>, lines 242 to 256.\<close>

definition createRuleset ::
  "('c, 't, 'w) API \<Rightarrow> 't externals \<Rightarrow> 'c \<Rightarrow> string \<Rightarrow> string \<Rightarrow> 't Ruleset \<Rightarrow> 'w
    \<Rightarrow> ('t Ruleset \<times> go_error option) \<times> 'w" where
  "createRuleset api ext ctx identifierType identifier ruleset w =
     (let uri = ''/'' @ identifierType @ ''/'' @ identifier @ ''/rulesets'';
          ((res, err), w') = makeRequestContext api ctx MethodPost uri (RulesetParams ruleset) w
      in case err of
           Some e \<Rightarrow> ((zero_Ruleset, Some e), w')
         | None \<Rightarrow>
             (case Unmarshal (decode_struct (member_CreateRulesetResponse ext)) res
                     \<lparr>Create_Result = zero_Ruleset\<rparr> of
                Inl e \<Rightarrow> ((zero_Ruleset, Some (errors_Wrap e (errUnmarshalError ext))), w')
              | Inr result \<Rightarrow> ((Create_Result result, None), w')))"

definition CreateZoneRuleset ::
  "('c, 't, 'w) API \<Rightarrow> 't externals \<Rightarrow> 'c \<Rightarrow> string \<Rightarrow> 't Ruleset \<Rightarrow> 'w
    \<Rightarrow> ('t Ruleset \<times> go_error option) \<times> 'w" where
  "CreateZoneRuleset api ext ctx zoneID ruleset =
     createRuleset api ext ctx ZoneRouteRoot zoneID ruleset"

definition CreateAccountRuleset ::
  "('c, 't, 'w) API \<Rightarrow> 't externals \<Rightarrow> 'c \<Rightarrow> string \<Rightarrow> 't Ruleset \<Rightarrow> 'w
    \<Rightarrow> ('t Ruleset \<times> go_error option) \<times> 'w" where
  "CreateAccountRuleset api ext ctx accountID ruleset =
     createRuleset api ext ctx AccountRouteRoot accountID ruleset"

text \<open>\<^verbatim>\<open>deleteRuleset\<close>, lines 273 to 289.\<close>

definition deleteRuleset ::
  "('c, 't, 'w) API \<Rightarrow> 't externals \<Rightarrow> 'c \<Rightarrow> string \<Rightarrow> string \<Rightarrow> string \<Rightarrow> 'w
    \<Rightarrow> go_error option \<times> 'w" where
  "deleteRuleset api ext ctx identifierType identifier rulesetID w =
     (let uri = ''/'' @ identifierType @ ''/'' @ identifier @ ''/rulesets/'' @ rulesetID;
          ((res, err), w') = makeRequestContext api ctx MethodDelete uri NoParams w
      in case err of
           Some e \<Rightarrow> (Some e, w')
         | None \<Rightarrow>
             if length res > 0
             then (Some (errors_Wrap (errors_New res) (errMakeRequestError ext)), w')
             else (None, w'))"

definition DeleteZoneRuleset ::
  "('c, 't, 'w) API \<Rightarrow> 't externals \<Rightarrow> 'c \<Rightarrow> string \<Rightarrow> string \<Rightarrow> 'w \<Rightarrow> go_error option \<times> 'w" where
  "DeleteZoneRuleset api ext ctx zoneID rulesetID =
     deleteRuleset api ext ctx ZoneRouteRoot zoneID rulesetID"

definition DeleteAccountRuleset ::
  "('c, 't, 'w) API \<Rightarrow> 't externals \<Rightarrow> 'c \<Rightarrow> string \<Rightarrow> string \<Rightarrow> 'w \<Rightarrow> go_error option \<times> 'w" where
  "DeleteAccountRuleset api ext ctx accountID rulesetID =
     deleteRuleset api ext ctx AccountRouteRoot accountID rulesetID"

text \<open>\<^verbatim>\<open>updateRuleset\<close>, lines 306 to 320.\<close>

definition updateRuleset ::
  "('c, 't, 'w) API \<Rightarrow> 't externals \<Rightarrow> 'c \<Rightarrow> string \<Rightarrow> string \<Rightarrow> string \<Rightarrow> string
    \<Rightarrow> 't RulesetRule list option \<Rightarrow> 'w \<Rightarrow> ('t Ruleset \<times> go_error option) \<times> 'w" where
  "updateRuleset api ext ctx identifierType identifier rulesetID description rules w =
     (let uri = ''/'' @ identifierType @ ''/'' @ identifier @ ''/rulesets/'' @ rulesetID;
          payload = \<lparr>Req_Description = description, Req_Rules = rules\<rparr>;
          ((res, err), w') = makeRequestContext api ctx MethodPut uri (UpdateParams payload) w
      in case err of
           Some e \<Rightarrow> ((zero_Ruleset, Some e), w')
         | None \<Rightarrow>
             (case Unmarshal (decode_struct (member_UpdateRulesetResponse ext)) res
                     \<lparr>Update_Result = zero_Ruleset\<rparr> of
                Inl e \<Rightarrow> ((zero_Ruleset, Some (errors_Wrap e (errUnmarshalError ext))), w')
              | Inr result \<Rightarrow> ((Update_Result result, None), w')))"

definition UpdateZoneRuleset ::
  "('c, 't, 'w) API \<Rightarrow> 't externals \<Rightarrow> 'c \<Rightarrow> string \<Rightarrow> string \<Rightarrow> string
    \<Rightarrow> 't RulesetRule list option \<Rightarrow> 'w \<Rightarrow> ('t Ruleset \<times> go_error option) \<times> 'w" where
  "UpdateZoneRuleset api ext ctx zoneID rulesetID description rules =
     updateRuleset api ext ctx ZoneRouteRoot zoneID rulesetID description rules"

definition UpdateAccountRuleset ::
  "('c, 't, 'w) API \<Rightarrow> 't externals \<Rightarrow> 'c \<Rightarrow> string \<Rightarrow> string \<Rightarrow> string
    \<Rightarrow> 't RulesetRule list option \<Rightarrow> 'w \<Rightarrow> ('t Ruleset \<times> go_error option) \<times> 'w" where
  "UpdateAccountRuleset api ext ctx accountID rulesetID description rules =
     updateRuleset api ext ctx AccountRouteRoot accountID rulesetID description rules"

section \<open>Observing the calls, and example collaborators\<close>

text \<open>
  The executor that behaves as \<open>api\<close> and also writes down every call it receives (context,
  method, path and params), in order.
\<close>

type_synonym ('c, 't) call = "'c \<times> string \<times> string \<times> 't params"

definition recording ::
  "('c, 't, 'w) API \<Rightarrow> ('c, 't, ('c, 't) call list \<times> 'w) API" where
  "recording api =
     \<lparr>makeRequestContext =
        (\<lambda>ctx method uri p (calls, w).
           let (r, w') = makeRequestContext api ctx method uri p w
           in (r, (calls @ [(ctx, method, uri, p)], w')))\<rparr>"

text \<open>An executor that answers every call with the same bytes and error.\<close>

definition answering :: "bytes \<Rightarrow> go_error option \<Rightarrow> (unit, string, unit) API" where
  "answering res err = \<lparr>makeRequestContext = (\<lambda>ctx method uri p w. ((res, err), w))\<rparr>"

text \<open>
  Example parameters: a \<^verbatim>\<open>Response\<close> with the members \<^verbatim>\<open>success\<close> (a bool), \<^verbatim>\<open>errors\<close> and
  \<^verbatim>\<open>messages\<close> (slices of a struct with an int \<^verbatim>\<open>code\<close> and a string \<^verbatim>\<open>message\<close>), and
  times that are their own text, of the form \<^verbatim>\<open>2006-01-02T15:04:05Z\<close>.
\<close>

definition example_time :: "string \<Rightarrow> bool" where
  "example_time s \<longleftrightarrow>
     map (\<lambda>c. if is_digit c then CHR ''0'' else c) s = ''0000-00-00T00:00:00Z''"

definition example_member_ResponseInfo ::
  "string \<Rightarrow> json \<Rightarrow> go_int \<times> string \<Rightarrow> go_error option \<Rightarrow> (go_int \<times> string) decoding" where
  "example_member_ResponseInfo k j v saved =
     (if names k ''code'' then store (decode_int j (fst v) saved) (\<lambda>x. (x, snd v))
      else if names k ''message'' then store (decode_string j (snd v) saved) (\<lambda>x. (fst v, x))
      else Inr (v, saved))"

definition example_Response_member ::
  "string \<Rightarrow> json \<Rightarrow> go_error option \<Rightarrow> go_error + go_error option" where
  "example_Response_member k j saved =
     (if names k ''success'' then map_sum id snd (decode_bool j False saved)
      else if names k ''errors'' \<or> names k ''messages''
      then map_sum id snd
             (decode_slice (decode_struct example_member_ResponseInfo) (0, []) j None saved)
      else Inr saved)"

definition example_externals :: "string externals" where
  "example_externals =
     \<lparr>errUnmarshalError = ''error unmarshalling the JSON response'',
      errMakeRequestError = ''error from makeRequest'',
      Response_member = example_Response_member,
      Time_MarshalJSON =
        (\<lambda>t. if example_time t then Inr (JString t)
             else Inl (OtherError ''Time.MarshalJSON: not a time'')),
      Time_UnmarshalJSON =
        (\<lambda>j. case j of
               JString s \<Rightarrow>
                 if example_time s then Inr s else Inl (OtherError ''parsing time: cannot parse'')
             | _ \<Rightarrow> Inl (OtherError ''Time.UnmarshalJSON: input is not a JSON string''))\<rparr>"

text \<open>Example response bodies and values.\<close>

definition quoted :: "string \<Rightarrow> string" where
  "quoted s = CHR 0x22 # s @ [CHR 0x22]"

definition example_list_body :: bytes where
  "example_list_body =
     ''{'' @ quoted ''success'' @ '':true,'' @ quoted ''errors'' @ '':[],'' @
     quoted ''messages'' @ '':[],'' @ quoted ''result'' @ '':[{'' @
     quoted ''id'' @ '':'' @ quoted ''a1'' @ '','' @
     quoted ''phase'' @ '':'' @ quoted ''http_request_firewall_custom'' @ ''},{'' @
     quoted ''id'' @ '':'' @ quoted ''b2'' @ '','' @
     quoted ''phase'' @ '':'' @ quoted ''http_request_transform'' @ ''}]}''"

definition example_rule :: "string RulesetRule" where
  "example_rule =
     zero_RulesetRule
       \<lparr>Rule_Action := ''block'',
        Rule_Expression := ''(http.user_agent contains '' @ quoted ''bot'' @ '')'',
        Rule_Enabled := True\<rparr>"

definition example_ruleset :: "string Ruleset" where
  "example_ruleset =
     zero_Ruleset
       \<lparr>Name := ''block-bad-bots'', Phase := ''http_request_firewall_custom'',
        Rules := Some [example_rule]\<rparr>"

definition example_ruleset_body :: bytes where
  "example_ruleset_body =
     ''{'' @ quoted ''success'' @ '': true, '' @ quoted ''result'' @ '': {'' @
     quoted ''id'' @ '':'' @ quoted ''a1'' @ '','' @
     quoted ''name'' @ '':'' @ quoted ''block-bad-bots'' @ '','' @
     quoted ''phase'' @ '':'' @ quoted ''http_request_firewall_custom'' @ '','' @
     quoted ''rules'' @ '':[{'' @
     quoted ''action'' @ '':'' @ quoted ''block'' @ '','' @
     quoted ''expression'' @ '':'' @
       quoted (''(http.user_agent contains '' @ [CHR 0x5C, CHR 0x22] @ ''bot'' @
               [CHR 0x5C, CHR 0x22] @ '')'') @ '','' @
     quoted ''enabled'' @ '':true}]}}''"

definition example_mismatch_body :: bytes where
  "example_mismatch_body = ''{'' @ quoted ''result'' @ '':5}''"

definition example_bad_time_body :: bytes where
  "example_bad_time_body =
     ''{'' @ quoted ''result'' @ '':{'' @ quoted ''last_updated'' @ '':5}}''"

definition example_no_result_body :: bytes where
  "example_no_result_body =
     ''{'' @ quoted ''success'' @ '':true,'' @ quoted ''unknown'' @ '':[2,3]}''"

definition example_yesterday_body :: bytes where
  "example_yesterday_body =
     ''{'' @ quoted ''result'' @ '':{'' @ quoted ''last_updated'' @ '':'' @
     quoted ''yesterday'' @ ''}}''"

definition example_header :: RulesetRuleActionParametersHTTPHeader where
  "example_header = zero_HTTPHeader\<lparr>Header_Operation := ''set'', Header_Value := ''1''\<rparr>"

definition example_parameters :: RulesetRuleActionParameters where
  "example_parameters =
     zero_ActionParameters
       \<lparr>AP_ID := ''p1'', AP_Increment := 3,
        AP_URI := zero_URI\<lparr>URI_Path := \<lparr>Path_Expression = ''/x''\<rparr>, URI_Origin := True\<rparr>,
        AP_Headers := Some (fmupd ''X-Test'' example_header fmempty),
        AP_Products := Some [''waf'', ''hot'']\<rparr>"

definition example_full_rule :: "string RulesetRule" where
  "example_full_rule =
     example_rule
       \<lparr>Rule_ID := ''r1'', Rule_ActionParameters := Some example_parameters,
        Rule_Description := ''caf'' @ [CHR 0xC3, CHR 0xA9],
        Rule_LastUpdated := Some ''2021-03-01T12:00:00Z'', Rule_Categories := Some [''bots''],
        Rule_ScoreThreshold := - 2\<rparr>"

definition example_full_ruleset :: "string Ruleset" where
  "example_full_ruleset =
     example_ruleset
       \<lparr>ID := ''a1'', Version := ''3'', LastUpdated := Some ''2021-03-01T12:00:00Z'',
        Rules := Some [example_full_rule, example_rule]\<rparr>"

definition example_empty_categories :: "string Ruleset" where
  "example_empty_categories =
     example_ruleset\<lparr>Rules := Some [example_rule\<lparr>Rule_Categories := Some []\<rparr>]\<rparr>"

text \<open>\<^verbatim>\<open>json.Marshal\<close> of a \<^verbatim>\<open>Ruleset\<close> followed by \<^verbatim>\<open>json.Unmarshal\<close> into a new one.\<close>

definition roundtrip :: "'t externals \<Rightarrow> 't Ruleset \<Rightarrow> go_error + 't Ruleset" where
  "roundtrip ext r =
     (case encode_Ruleset ext r of
        Inl e \<Rightarrow> Inl e
      | Inr j \<Rightarrow>
          (case decode_Ruleset ext j zero_Ruleset None of
             Inl e \<Rightarrow> Inl e
           | Inr (r', saved) \<Rightarrow> (case saved of None \<Rightarrow> Inr r' | Some e \<Rightarrow> Inl e)))"

text \<open>
  What a \<^verbatim>\<open>Ruleset\<close> needs to come back from \<^const>\<open>roundtrip\<close> as it went in: strings that
  are well-formed UTF-8 (the encoder leaves them as they are); no empty slice or map in a
  field tagged \<^verbatim>\<open>omitempty\<close> (nil instead); and times that \<^verbatim>\<open>MarshalJSON\<close> writes as a value
  other than \<^verbatim>\<open>null\<close> from which \<^verbatim>\<open>UnmarshalJSON\<close> reads them back.
\<close>

definition well_formed :: "string \<Rightarrow> bool" where
  "well_formed s \<longleftrightarrow> coerceUTF8 s = s"

definition nil_or_filled :: "string list option \<Rightarrow> bool" where
  "nil_or_filled xs = (case xs of None \<Rightarrow> True | Some ys \<Rightarrow> ys \<noteq> [] \<and> list_all well_formed ys)"

definition time_returns :: "'t externals \<Rightarrow> 't option \<Rightarrow> bool" where
  "time_returns ext t =
     (case t of
        None \<Rightarrow> True
      | Some x \<Rightarrow>
          (case Time_MarshalJSON ext x of
             Inl e \<Rightarrow> False
           | Inr j \<Rightarrow> j \<noteq> JNull \<and> Time_UnmarshalJSON ext j = Inr x))"

definition returns_URI :: "RulesetRuleActionParametersURI \<Rightarrow> bool" where
  "returns_URI v \<longleftrightarrow>
     well_formed (Path_Expression (URI_Path v)) \<and> well_formed (Query_Value (URI_Query v))
     \<and> well_formed (Query_Expression (URI_Query v))"

definition returns_HTTPHeader :: "RulesetRuleActionParametersHTTPHeader \<Rightarrow> bool" where
  "returns_HTTPHeader v \<longleftrightarrow>
     well_formed (Header_Operation v) \<and> well_formed (Header_Value v)
     \<and> well_formed (Header_Expression v)"

definition returns_Headers ::
  "(string, RulesetRuleActionParametersHTTPHeader) fmap option \<Rightarrow> bool" where
  "returns_Headers hs =
     (case hs of
        None \<Rightarrow> True
      | Some m \<Rightarrow>
          fmdom m \<noteq> {||}
          \<and> list_all (\<lambda>k. well_formed k \<and> returns_HTTPHeader (the (fmlookup m k)))
               (sorted_list_of_fset (fmdom m)))"

definition returns_ActionParameters :: "RulesetRuleActionParameters \<Rightarrow> bool" where
  "returns_ActionParameters v \<longleftrightarrow>
     well_formed (AP_ID v) \<and> well_formed (AP_Ruleset v) \<and> returns_URI (AP_URI v)
     \<and> returns_Headers (AP_Headers v) \<and> nil_or_filled (AP_Products v)"

definition returns_RulesetRule :: "'t externals \<Rightarrow> 't RulesetRule \<Rightarrow> bool" where
  "returns_RulesetRule ext v \<longleftrightarrow>
     well_formed (Rule_ID v) \<and> well_formed (Rule_Version v) \<and> well_formed (Rule_Action v)
     \<and> (case Rule_ActionParameters v of None \<Rightarrow> True | Some p \<Rightarrow> returns_ActionParameters p)
     \<and> well_formed (Rule_Expression v) \<and> well_formed (Rule_Description v)
     \<and> time_returns ext (Rule_LastUpdated v) \<and> well_formed (Rule_Ref v)
     \<and> nil_or_filled (Rule_Categories v)"

definition returns_Ruleset :: "'t externals \<Rightarrow> 't Ruleset \<Rightarrow> bool" where
  "returns_Ruleset ext v \<longleftrightarrow>
     well_formed (ID v) \<and> well_formed (Name v) \<and> well_formed (Description v)
     \<and> well_formed (Kind v) \<and> well_formed (Version v) \<and> time_returns ext (LastUpdated v)
     \<and> well_formed (Phase v)
     \<and> (case Rules v of None \<Rightarrow> True | Some rs \<Rightarrow> list_all (returns_RulesetRule ext) rs)"

section \<open>When a document fits the types, in the words of the specification\<close>

text \<open>
  A value fits a field when it is \<^verbatim>\<open>null\<close> or has the field's JSON type: a string, a bool, an
  integer literal within 64 bits, an array whose elements fit, an object whose members fit;
  and, for a time, when \<^verbatim>\<open>UnmarshalJSON\<close> accepts it. A member of an object fits a struct when
  its key names no field of the struct, or names one that its value fits. Nothing asks for a
  member to be there.
\<close>

definition fits_string :: "json \<Rightarrow> bool" where
  "fits_string j = (case j of JNull \<Rightarrow> True | JString s \<Rightarrow> True | _ \<Rightarrow> False)"

definition fits_bool :: "json \<Rightarrow> bool" where
  "fits_bool j = (case j of JNull \<Rightarrow> True | JBool b \<Rightarrow> True | _ \<Rightarrow> False)"

definition fits_int :: "json \<Rightarrow> bool" where
  "fits_int j =
     (case j of
        JNull \<Rightarrow> True
      | JNumber neg n rest \<Rightarrow> rest = [] \<and> (if neg then n \<le> 2 ^ 63 else n < 2 ^ 63)
      | _ \<Rightarrow> False)"

definition fits_time :: "'t externals \<Rightarrow> json \<Rightarrow> bool" where
  "fits_time ext j =
     (case j of
        JNull \<Rightarrow> True
      | _ \<Rightarrow> (case Time_UnmarshalJSON ext j of Inl e \<Rightarrow> False | Inr t \<Rightarrow> True))"

definition fits_array :: "(json \<Rightarrow> bool) \<Rightarrow> json \<Rightarrow> bool" where
  "fits_array f j = (case j of JNull \<Rightarrow> True | JArray js \<Rightarrow> list_all f js | _ \<Rightarrow> False)"

definition fits_object :: "(string \<Rightarrow> json \<Rightarrow> bool) \<Rightarrow> json \<Rightarrow> bool" where
  "fits_object field j =
     (case j of
        JNull \<Rightarrow> True
      | JObject ms \<Rightarrow> list_all (\<lambda>(k, j'). field k j') ms
      | _ \<Rightarrow> False)"

definition field_URIPath :: "string \<Rightarrow> json \<Rightarrow> bool" where
  "field_URIPath k j = (if names k ''expression'' then fits_string j else True)"

definition field_URIQuery :: "string \<Rightarrow> json \<Rightarrow> bool" where
  "field_URIQuery k j =
     (if names k ''value'' \<or> names k ''expression'' then fits_string j else True)"

definition field_URI :: "string \<Rightarrow> json \<Rightarrow> bool" where
  "field_URI k j =
     (if names k ''path'' then fits_object field_URIPath j
      else if names k ''query'' then fits_object field_URIQuery j
      else if names k ''origin'' then fits_bool j
      else True)"

definition field_HTTPHeader :: "string \<Rightarrow> json \<Rightarrow> bool" where
  "field_HTTPHeader k j =
     (if names k ''operation'' \<or> names k ''value'' \<or> names k ''expression''
      then fits_string j else True)"

definition field_ActionParameters :: "string \<Rightarrow> json \<Rightarrow> bool" where
  "field_ActionParameters k j =
     (if names k ''id'' \<or> names k ''ruleset'' then fits_string j
      else if names k ''increment'' then fits_int j
      else if names k ''uri'' then fits_object field_URI j
      else if names k ''headers'' then fits_object (\<lambda>h. fits_object field_HTTPHeader) j
      else if names k ''products'' then fits_array fits_string j
      else True)"

definition field_RulesetRule :: "'t externals \<Rightarrow> string \<Rightarrow> json \<Rightarrow> bool" where
  "field_RulesetRule ext k j =
     (if names k ''id'' \<or> names k ''version'' \<or> names k ''action'' then fits_string j
      else if names k ''action_parameters'' then fits_object field_ActionParameters j
      else if names k ''expression'' \<or> names k ''description'' then fits_string j
      else if names k ''last_updated'' then fits_time ext j
      else if names k ''ref'' then fits_string j
      else if names k ''enabled'' then fits_bool j
      else if names k ''categories'' then fits_array fits_string j
      else if names k ''score_threshold'' then fits_int j
      else True)"

definition field_Ruleset :: "'t externals \<Rightarrow> string \<Rightarrow> json \<Rightarrow> bool" where
  "field_Ruleset ext k j =
     (if names k ''id'' \<or> names k ''name'' \<or> names k ''description'' \<or> names k ''kind''
         \<or> names k ''version''
      then fits_string j
      else if names k ''last_updated'' then fits_time ext j
      else if names k ''phase'' then fits_string j
      else if names k ''rules'' then fits_array (fits_object (field_RulesetRule ext)) j
      else True)"

text \<open>The embedded \<^verbatim>\<open>Response\<close> takes a member when decoding it neither fails nor saves an
  error.\<close>

definition Response_takes :: "'t externals \<Rightarrow> string \<Rightarrow> json \<Rightarrow> bool" where
  "Response_takes ext k j \<longleftrightarrow> (\<forall>saved. Response_member ext k j saved = Inr saved)"

definition field_ListRulesetResponse :: "'t externals \<Rightarrow> string \<Rightarrow> json \<Rightarrow> bool" where
  "field_ListRulesetResponse ext k j =
     (if names k ''result'' then fits_array (fits_object (field_Ruleset ext)) j
      else Response_takes ext k j)"

definition field_RulesetResponse :: "'t externals \<Rightarrow> string \<Rightarrow> json \<Rightarrow> bool" where
  "field_RulesetResponse ext k j =
     (if names k ''result'' then fits_object (field_Ruleset ext) j
      else Response_takes ext k j)"

text \<open>A response without a member named \<^verbatim>\<open>result\<close>.\<close>

definition lacks_result :: "json \<Rightarrow> bool" where
  "lacks_result j =
     (case j of
        JNull \<Rightarrow> True
      | JObject ms \<Rightarrow> list_all (\<lambda>(k, j'). \<not> names k ''result'') ms
      | _ \<Rightarrow> False)"

text \<open>A step of the decoder passes when it neither fails nor saves an error.\<close>

definition passes :: "'a decoding \<Rightarrow> go_error option \<Rightarrow> bool" where
  "passes d saved = (case d of Inl e \<Rightarrow> False | Inr (v, saved') \<Rightarrow> saved' = saved)"

section \<open>Worked examples\<close>

lemmas scan_defs = json_parse_def is_space_def is_digit_def byte_def scan_number_def
  scan_fraction_def scan_exponent_def scan_digits_def scan_word_def cons_some_def app_some_def
  maxNestingDepth_def digits_value_def simple_escape_def quoted_def rune_tail_def

lemmas decode_defs = names_def byte_def store_def saveError_def decode_string_def
  decode_bool_def decode_int_def decode_struct_def decode_slice_def decode_pointer_def
  decode_map_def decode_time_def decode_Ruleset_def member_Ruleset_def member_RulesetRule_def
  member_ActionParameters_def member_URI_def member_URIPath_def member_URIQuery_def
  member_HTTPHeader_def embedded_Response_def member_ListRulesetResponse_def
  member_GetRulesetResponse_def member_CreateRulesetResponse_def
  member_UpdateRulesetResponse_def example_externals_def example_Response_member_def
  example_member_ResponseInfo_def

lemma parse_list_body:
  "json_parse example_list_body =
     Some (JObject
       [(''success'', JBool True), (''errors'', JArray []), (''messages'', JArray []),
        (''result'', JArray
           [JObject [(''id'', JString ''a1''), (''phase'', JString ''http_request_firewall_custom'')],
            JObject [(''id'', JString ''b2''), (''phase'', JString ''http_request_transform'')]])])"
  by (simp add: scan_defs example_list_body_def)

lemma unmarshal_list_body:
  "Unmarshal (decode_struct (member_ListRulesetResponse example_externals)) example_list_body
     \<lparr>List_Result = None\<rparr>
   = Inr \<lparr>List_Result = Some
       [zero_Ruleset\<lparr>ID := ''a1'', Phase := ''http_request_firewall_custom''\<rparr>,
        zero_Ruleset\<lparr>ID := ''b2'', Phase := ''http_request_transform''\<rparr>]\<rparr>"
  by (simp add: Unmarshal_def parse_list_body decode_defs zero_Ruleset_def)

lemma parse_ruleset_body:
  "json_parse example_ruleset_body =
     Some (JObject
       [(''success'', JBool True),
        (''result'', JObject
           [(''id'', JString ''a1''), (''name'', JString ''block-bad-bots''),
            (''phase'', JString ''http_request_firewall_custom''),
            (''rules'', JArray
               [JObject [(''action'', JString ''block''),
                  (''expression'', JString (''(http.user_agent contains '' @ quoted ''bot'' @ '')'')),
                  (''enabled'', JBool True)]])])])"
  by (simp add: scan_defs example_ruleset_body_def)

lemma parse_empty_object: "json_parse ''{}'' = Some (JObject [])"
  by (simp add: scan_defs)

lemma parse_nonsense: "json_parse ''nonsense'' = None"
  by (simp add: scan_defs)

lemma parse_mismatch_body:
  "json_parse example_mismatch_body = Some (JObject [(''result'', JNumber False 5 [])])"
  by (simp add: scan_defs example_mismatch_body_def)

lemma parse_bad_time_body:
  "json_parse example_bad_time_body
     = Some (JObject [(''result'', JObject [(''last_updated'', JNumber False 5 [])])])"
  by (simp add: scan_defs example_bad_time_body_def)

lemma parse_no_result_body:
  "json_parse example_no_result_body
     = Some (JObject [(''success'', JBool True),
               (''unknown'', JArray [JNumber False 2 [], JNumber False 3 []])])"
  by (simp add: scan_defs example_no_result_body_def)

lemma unmarshal_nonsense: "Unmarshal dec ''nonsense'' v = Inl SyntaxError"
  by (simp add: Unmarshal_def parse_nonsense)

lemma unmarshal_mismatch_get:
  "Unmarshal (decode_struct (member_GetRulesetResponse example_externals)) example_mismatch_body
     \<lparr>Get_Result = zero_Ruleset\<rparr> = Inl UnmarshalTypeError"
  by (simp add: Unmarshal_def parse_mismatch_body decode_defs)

lemma unmarshal_mismatch_create:
  "Unmarshal (decode_struct (member_CreateRulesetResponse example_externals)) example_mismatch_body
     \<lparr>Create_Result = zero_Ruleset\<rparr> = Inl UnmarshalTypeError"
  by (simp add: Unmarshal_def parse_mismatch_body decode_defs)

lemma unmarshal_bad_time_update:
  "Unmarshal (decode_struct (member_UpdateRulesetResponse example_externals))
     example_bad_time_body \<lparr>Update_Result = zero_Ruleset\<rparr>
   = Inl (OtherError ''Time.UnmarshalJSON: input is not a JSON string'')"
  by (simp add: Unmarshal_def parse_bad_time_body decode_defs zero_Ruleset_def)

lemma answering_call:
  "makeRequestContext (answering res err) ctx m uri p w = ((res, err), w)"
  by (simp add: answering_def)

lemma unmarshal_ruleset_body:
  "Unmarshal (decode_struct (member_GetRulesetResponse example_externals)) example_ruleset_body
     \<lparr>Get_Result = zero_Ruleset\<rparr> = Inr \<lparr>Get_Result = example_ruleset\<lparr>ID := ''a1''\<rparr>\<rparr>"
  "Unmarshal (decode_struct (member_CreateRulesetResponse example_externals)) example_ruleset_body
     \<lparr>Create_Result = zero_Ruleset\<rparr> = Inr \<lparr>Create_Result = example_ruleset\<lparr>ID := ''a1''\<rparr>\<rparr>"
  "Unmarshal (decode_struct (member_UpdateRulesetResponse example_externals)) example_ruleset_body
     \<lparr>Update_Result = zero_Ruleset\<rparr> = Inr \<lparr>Update_Result = example_ruleset\<lparr>ID := ''a1''\<rparr>\<rparr>"
  by (simp_all add: Unmarshal_def parse_ruleset_body decode_defs zero_Ruleset_def
      zero_RulesetRule_def example_ruleset_def example_rule_def quoted_def)

section \<open>The calls an operation makes\<close>

lemma recording_call:
  "makeRequestContext (recording api) ctx m uri p (calls, w) =
     (fst (makeRequestContext api ctx m uri p w),
      (calls @ [(ctx, m, uri, p)], snd (makeRequestContext api ctx m uri p w)))"
  by (simp add: recording_def split: prod.splits)

lemma list_calls:
  "fst (snd (listRulesets (recording api) ext ctx scope i ([], w)))
     = [(ctx, MethodGet, ''/'' @ scope @ ''/'' @ i @ ''/rulesets'', NoParams)]"
  by (simp add: listRulesets_def recording_call Let_def split: prod.splits option.splits sum.splits)

lemma get_calls:
  "fst (snd (getRuleset (recording api) ext ctx scope i rid ([], w)))
     = [(ctx, MethodGet, ''/'' @ scope @ ''/'' @ i @ ''/rulesets/'' @ rid, NoParams)]"
  by (simp add: getRuleset_def recording_call Let_def split: prod.splits option.splits sum.splits)

lemma create_calls:
  "fst (snd (createRuleset (recording api) ext ctx scope i ruleset ([], w)))
     = [(ctx, MethodPost, ''/'' @ scope @ ''/'' @ i @ ''/rulesets'', RulesetParams ruleset)]"
  by (simp add: createRuleset_def recording_call Let_def split: prod.splits option.splits sum.splits)

lemma update_calls:
  "fst (snd (updateRuleset (recording api) ext ctx scope i rid d rules ([], w)))
     = [(ctx, MethodPut, ''/'' @ scope @ ''/'' @ i @ ''/rulesets/'' @ rid,
         UpdateParams \<lparr>Req_Description = d, Req_Rules = rules\<rparr>)]"
  by (simp add: updateRuleset_def recording_call Let_def split: prod.splits option.splits sum.splits)

lemma delete_calls:
  "fst (snd (deleteRuleset (recording api) ext ctx scope i rid ([], w)))
     = [(ctx, MethodDelete, ''/'' @ scope @ ''/'' @ i @ ''/rulesets/'' @ rid, NoParams)]"
  by (simp add: deleteRuleset_def recording_call Let_def split: prod.splits option.splits sum.splits)

text \<open>
  C2. Each operation makes exactly one call. Its path is \<^verbatim>\<open>/{scope}/{id}/rulesets\<close> for list
  and create and \<^verbatim>\<open>/{scope}/{id}/rulesets/{rulesetId}\<close> for get, update and delete, for every
  scope and identifiers; the zone entry points use the scope \<^verbatim>\<open>zones\<close>, the account ones
  \<^verbatim>\<open>accounts\<close>.
\<close>

theorem request_paths:
  "map (\<lambda>c. fst (snd (snd c))) (fst (snd (listRulesets (recording api) ext ctx scope i ([], w))))
     = [''/'' @ scope @ ''/'' @ i @ ''/rulesets'']
 \<and> map (\<lambda>c. fst (snd (snd c))) (fst (snd (createRuleset (recording api) ext ctx scope i ruleset ([], w))))
     = [''/'' @ scope @ ''/'' @ i @ ''/rulesets'']
 \<and> map (\<lambda>c. fst (snd (snd c))) (fst (snd (getRuleset (recording api) ext ctx scope i rid ([], w))))
     = [''/'' @ scope @ ''/'' @ i @ ''/rulesets/'' @ rid]
 \<and> map (\<lambda>c. fst (snd (snd c)))
      (fst (snd (updateRuleset (recording api) ext ctx scope i rid d rules ([], w))))
     = [''/'' @ scope @ ''/'' @ i @ ''/rulesets/'' @ rid]
 \<and> map (\<lambda>c. fst (snd (snd c))) (fst (snd (deleteRuleset (recording api) ext ctx scope i rid ([], w))))
     = [''/'' @ scope @ ''/'' @ i @ ''/rulesets/'' @ rid]
 \<and> map (\<lambda>c. fst (snd (snd c))) (fst (snd (ListZoneRulesets (recording api) ext ctx i ([], w))))
     = [''/zones/'' @ i @ ''/rulesets'']
 \<and> map (\<lambda>c. fst (snd (snd c))) (fst (snd (ListAccountRulesets (recording api) ext ctx i ([], w))))
     = [''/accounts/'' @ i @ ''/rulesets'']
 \<and> map (\<lambda>c. fst (snd (snd c))) (fst (snd (CreateZoneRuleset (recording api) ext ctx i ruleset ([], w))))
     = [''/zones/'' @ i @ ''/rulesets'']
 \<and> map (\<lambda>c. fst (snd (snd c)))
      (fst (snd (CreateAccountRuleset (recording api) ext ctx i ruleset ([], w))))
     = [''/accounts/'' @ i @ ''/rulesets'']
 \<and> map (\<lambda>c. fst (snd (snd c))) (fst (snd (GetZoneRuleset (recording api) ext ctx i rid ([], w))))
     = [''/zones/'' @ i @ ''/rulesets/'' @ rid]
 \<and> map (\<lambda>c. fst (snd (snd c))) (fst (snd (GetAccountRuleset (recording api) ext ctx i rid ([], w))))
     = [''/accounts/'' @ i @ ''/rulesets/'' @ rid]
 \<and> map (\<lambda>c. fst (snd (snd c)))
      (fst (snd (UpdateZoneRuleset (recording api) ext ctx i rid d rules ([], w))))
     = [''/zones/'' @ i @ ''/rulesets/'' @ rid]
 \<and> map (\<lambda>c. fst (snd (snd c)))
      (fst (snd (UpdateAccountRuleset (recording api) ext ctx i rid d rules ([], w))))
     = [''/accounts/'' @ i @ ''/rulesets/'' @ rid]
 \<and> map (\<lambda>c. fst (snd (snd c))) (fst (snd (DeleteZoneRuleset (recording api) ext ctx i rid ([], w))))
     = [''/zones/'' @ i @ ''/rulesets/'' @ rid]
 \<and> map (\<lambda>c. fst (snd (snd c)))
      (fst (snd (DeleteAccountRuleset (recording api) ext ctx i rid ([], w))))
     = [''/accounts/'' @ i @ ''/rulesets/'' @ rid]"
  by (simp add: list_calls get_calls create_calls update_calls delete_calls
      ListZoneRulesets_def ListAccountRulesets_def GetZoneRuleset_def
      GetAccountRuleset_def CreateZoneRuleset_def CreateAccountRuleset_def DeleteZoneRuleset_def
      DeleteAccountRuleset_def UpdateZoneRuleset_def UpdateAccountRuleset_def
      ZoneRouteRoot_def AccountRouteRoot_def)

text \<open>
  C3. The params of the one call of update are an \<^verbatim>\<open>UpdateRulesetRequest\<close> made of the
  description and the rules given. When its encoding succeeds, the request body is an
  object with exactly two members, \<^verbatim>\<open>description\<close> and \<^verbatim>\<open>rules\<close>, in this order; it fails
  only when a rule does not encode, and then there is no body.
\<close>

theorem update_payload:
  "map (\<lambda>c. snd (snd (snd c)))
     (fst (snd (updateRuleset (recording api) ext ctx scope i rid d rules ([], w))))
     = [UpdateParams \<lparr>Req_Description = d, Req_Rules = rules\<rparr>]
 \<and> (case request_body ext (UpdateParams \<lparr>Req_Description = d, Req_Rules = rules\<rparr>) of
       None \<Rightarrow> False
     | Some (Inl e) \<Rightarrow> encode_Rules ext rules = Inl e
     | Some (Inr j) \<Rightarrow>
         (\<exists>rs. encode_Rules ext rules = Inr rs
            \<and> j = JObject [(''description'', encode_string d), (''rules'', rs)]))"
  by (simp add: update_calls request_body_def encode_UpdateRulesetRequest_def split: sum.splits)

section \<open>Delete\<close>

lemma sublist_suffix_self: "sublist res (m @ res)"
  by (simp add: suffix_imp_sublist suffix_def)

text \<open>
  C1. When the executor returns no error for the call of a delete operation, the operation
  returns no error if the response body has length zero; otherwise it returns
  \<^verbatim>\<open>errors.Wrap(errors.New(string(res)), errMakeRequestError)\<close>, whose message ends with the
  body's text. Nothing but the length of the body is looked at. The zone and the account
  entry points are \<^const>\<open>deleteRuleset\<close> at the two route roots.
\<close>

theorem delete_body:
  assumes "makeRequestContext api ctx MethodDelete
             (''/'' @ scope @ ''/'' @ identifier @ ''/rulesets/'' @ rulesetID) NoParams w
           = ((res, None), w')"
  shows "snd (deleteRuleset api ext ctx scope identifier rulesetID w) = w'
       \<and> (case fst (deleteRuleset api ext ctx scope identifier rulesetID w) of
            None \<Rightarrow> length res = 0
          | Some e \<Rightarrow> 0 < length res
              \<and> e = errors_Wrap (errors_New res) (errMakeRequestError ext)
              \<and> Error e = errMakeRequestError ext @ '': '' @ res
              \<and> sublist res (Error e))"
  using assms by (simp add: deleteRuleset_def sublist_suffix_self[of res "errMakeRequestError ext @ '': ''", simplified])

theorem delete_body_witness:
  "fst (DeleteZoneRuleset (answering [] None) example_externals () ''abc123'' ''r1'' ()) = None
 \<and> fst (DeleteAccountRuleset (answering ''{}'' None) example_externals () ''abc123'' ''r1'' ())
     = Some (errors_Wrap (errors_New ''{}'') ''error from makeRequest'')"
  using delete_body[of "answering [] None" "()" ZoneRouteRoot "''abc123''" "''r1''" "()" "[]" "()" example_externals]
    delete_body[of "answering ''{}'' None" "()" AccountRouteRoot "''abc123''" "''r1''" "()" "''{}''" "()" example_externals]
  by (simp add: answering_def DeleteZoneRuleset_def DeleteAccountRuleset_def example_externals_def split: option.splits)

section \<open>Errors\<close>

text \<open>
  C5. For each of the five operations: if the executor's call returns an error, the
  operation returns that same error value, with the zero result.
\<close>

theorem transport_error_unchanged:
  "(makeRequestContext api ctx MethodGet (''/'' @ scope @ ''/'' @ identifier @ ''/rulesets'')
      NoParams w = ((res, Some e), w')
    \<longrightarrow> listRulesets api ext ctx scope identifier w = ((Some [], Some e), w'))
 \<and> (makeRequestContext api ctx MethodGet
      (''/'' @ scope @ ''/'' @ identifier @ ''/rulesets/'' @ rulesetID) NoParams w
      = ((res, Some e), w')
    \<longrightarrow> getRuleset api ext ctx scope identifier rulesetID w = ((zero_Ruleset, Some e), w'))
 \<and> (makeRequestContext api ctx MethodPost (''/'' @ scope @ ''/'' @ identifier @ ''/rulesets'')
      (RulesetParams ruleset) w = ((res, Some e), w')
    \<longrightarrow> createRuleset api ext ctx scope identifier ruleset w = ((zero_Ruleset, Some e), w'))
 \<and> (makeRequestContext api ctx MethodPut
      (''/'' @ scope @ ''/'' @ identifier @ ''/rulesets/'' @ rulesetID)
      (UpdateParams \<lparr>Req_Description = description, Req_Rules = rules\<rparr>) w
      = ((res, Some e), w')
    \<longrightarrow> updateRuleset api ext ctx scope identifier rulesetID description rules w
        = ((zero_Ruleset, Some e), w'))
 \<and> (makeRequestContext api ctx MethodDelete
      (''/'' @ scope @ ''/'' @ identifier @ ''/rulesets/'' @ rulesetID) NoParams w
      = ((res, Some e), w')
    \<longrightarrow> deleteRuleset api ext ctx scope identifier rulesetID w = (Some e, w'))"
  by (simp add: listRulesets_def getRuleset_def createRuleset_def updateRuleset_def
      deleteRuleset_def)

theorem transport_error_unchanged_witness:
  "snd (fst (ListZoneRulesets (answering ''x'' (Some (OtherError ''404''))) example_externals ()
        ''abc123'' ())) = Some (OtherError ''404'')
 \<and> snd (fst (GetZoneRuleset (answering ''x'' (Some (OtherError ''404''))) example_externals ()
        ''abc123'' ''r1'' ())) = Some (OtherError ''404'')
 \<and> snd (fst (CreateAccountRuleset (answering ''x'' (Some (OtherError ''404''))) example_externals ()
        ''abc123'' zero_Ruleset ())) = Some (OtherError ''404'')
 \<and> snd (fst (UpdateAccountRuleset (answering ''x'' (Some (OtherError ''404''))) example_externals ()
        ''abc123'' ''r1'' ''d'' None ())) = Some (OtherError ''404'')
 \<and> fst (DeleteZoneRuleset (answering ''x'' (Some (OtherError ''404''))) example_externals ()
        ''abc123'' ''r1'' ()) = Some (OtherError ''404'')"
  using transport_error_unchanged[of "answering ''x'' (Some (OtherError ''404''))" "()" ZoneRouteRoot
      "''abc123''" "()" "''x''" "OtherError ''404''" "()" example_externals "''r1''" zero_Ruleset
      "''d''" None]
    transport_error_unchanged[of "answering ''x'' (Some (OtherError ''404''))" "()" AccountRouteRoot
      "''abc123''" "()" "''x''" "OtherError ''404''" "()" example_externals "''r1''" zero_Ruleset
      "''d''" None]
  by (simp add: answering_def ListZoneRulesets_def GetZoneRuleset_def CreateAccountRuleset_def
      UpdateAccountRuleset_def DeleteZoneRuleset_def)

text \<open>
  C6. For list, get, create and update: if the executor returns no error and
  \<^verbatim>\<open>json.Unmarshal\<close> of the response fails with \<open>e\<close>, the operation returns
  \<^verbatim>\<open>errors.Wrap(e, errUnmarshalError)\<close>, whose message starts with the marker.
\<close>

theorem decode_error_wrapped:
  "(makeRequestContext api ctx MethodGet (''/'' @ scope @ ''/'' @ i @ ''/rulesets'') NoParams w
      = ((res, None), w')
    \<and> Unmarshal (decode_struct (member_ListRulesetResponse ext)) res \<lparr>List_Result = None\<rparr> = Inl e
    \<longrightarrow> listRulesets api ext ctx scope i w
        = ((Some [], Some (errors_Wrap e (errUnmarshalError ext))), w'))
 \<and> (makeRequestContext api ctx MethodGet (''/'' @ scope @ ''/'' @ i @ ''/rulesets/'' @ rid)
      NoParams w = ((res, None), w')
    \<and> Unmarshal (decode_struct (member_GetRulesetResponse ext)) res
        \<lparr>Get_Result = zero_Ruleset\<rparr> = Inl e
    \<longrightarrow> getRuleset api ext ctx scope i rid w
        = ((zero_Ruleset, Some (errors_Wrap e (errUnmarshalError ext))), w'))
 \<and> (makeRequestContext api ctx MethodPost (''/'' @ scope @ ''/'' @ i @ ''/rulesets'')
      (RulesetParams ruleset) w = ((res, None), w')
    \<and> Unmarshal (decode_struct (member_CreateRulesetResponse ext)) res
        \<lparr>Create_Result = zero_Ruleset\<rparr> = Inl e
    \<longrightarrow> createRuleset api ext ctx scope i ruleset w
        = ((zero_Ruleset, Some (errors_Wrap e (errUnmarshalError ext))), w'))
 \<and> (makeRequestContext api ctx MethodPut (''/'' @ scope @ ''/'' @ i @ ''/rulesets/'' @ rid)
      (UpdateParams \<lparr>Req_Description = d, Req_Rules = rules\<rparr>) w = ((res, None), w')
    \<and> Unmarshal (decode_struct (member_UpdateRulesetResponse ext)) res
        \<lparr>Update_Result = zero_Ruleset\<rparr> = Inl e
    \<longrightarrow> updateRuleset api ext ctx scope i rid d rules w
        = ((zero_Ruleset, Some (errors_Wrap e (errUnmarshalError ext))), w'))
 \<and> Error (errors_Wrap e (errUnmarshalError ext)) = errUnmarshalError ext @ '': '' @ Error e"
  by (simp add: listRulesets_def getRuleset_def createRuleset_def updateRuleset_def)

theorem decode_error_wrapped_witness:
  "listRulesets (answering ''nonsense'' None) example_externals () ''zones'' ''abc123'' ()
     = ((Some [], Some (errors_Wrap SyntaxError ''error unmarshalling the JSON response'')), ())
 \<and> getRuleset (answering example_mismatch_body None) example_externals () ''zones'' ''abc123''
       ''r1'' ()
     = ((zero_Ruleset,
         Some (errors_Wrap UnmarshalTypeError ''error unmarshalling the JSON response'')), ())
 \<and> createRuleset (answering example_mismatch_body None) example_externals () ''accounts''
       ''abc123'' example_ruleset ()
     = ((zero_Ruleset,
         Some (errors_Wrap UnmarshalTypeError ''error unmarshalling the JSON response'')), ())
 \<and> updateRuleset (answering example_bad_time_body None) example_externals () ''accounts''
       ''abc123'' ''r1'' ''d'' None ()
     = ((zero_Ruleset,
         Some (errors_Wrap (OtherError ''Time.UnmarshalJSON: input is not a JSON string'')
                 ''error unmarshalling the JSON response'')), ())"
proof -
  have m: "errUnmarshalError example_externals = ''error unmarshalling the JSON response''"
    by (simp add: example_externals_def)
  note a = decode_error_wrapped[where api = "answering ''nonsense'' None"
      and ext = example_externals and res = "''nonsense''" and e = SyntaxError and w' = "()"]
  note b = decode_error_wrapped[where api = "answering example_mismatch_body None"
      and ext = example_externals and res = example_mismatch_body and e = UnmarshalTypeError
      and w' = "()"]
  note c = decode_error_wrapped[where api = "answering example_bad_time_body None"
      and ext = example_externals and res = example_bad_time_body
      and e = "OtherError ''Time.UnmarshalJSON: input is not a JSON string''" and w' = "()"]
  show ?thesis
    using a b c
    by (simp add: answering_call unmarshal_nonsense unmarshal_mismatch_get
        unmarshal_mismatch_create unmarshal_bad_time_update m)
qed

text \<open>
  C9. Whenever list returns an error its slice is the empty slice \<^verbatim>\<open>[]Ruleset{}\<close>, and
  whenever get, create or update returns an error its \<^verbatim>\<open>Ruleset\<close> is the zero value.
\<close>

theorem error_with_zero_value:
  "(snd (fst (listRulesets api ext ctx scope i w)) \<noteq> None
    \<longrightarrow> fst (fst (listRulesets api ext ctx scope i w)) = Some [])
 \<and> (snd (fst (getRuleset api ext ctx scope i rulesetID w)) \<noteq> None
    \<longrightarrow> fst (fst (getRuleset api ext ctx scope i rulesetID w)) = zero_Ruleset)
 \<and> (snd (fst (createRuleset api ext ctx scope i ruleset w)) \<noteq> None
    \<longrightarrow> fst (fst (createRuleset api ext ctx scope i ruleset w)) = zero_Ruleset)
 \<and> (snd (fst (updateRuleset api ext ctx scope i rulesetID description rules w)) \<noteq> None
    \<longrightarrow> fst (fst (updateRuleset api ext ctx scope i rulesetID description rules w))
        = zero_Ruleset)"
  by (simp add: listRulesets_def getRuleset_def createRuleset_def updateRuleset_def
      split: prod.splits option.splits sum.splits)

theorem error_with_zero_value_witness:
  "snd (fst (listRulesets (answering ''x'' (Some (OtherError ''404''))) example_externals ()
       ''zones'' ''abc123'' ())) \<noteq> None
 \<and> fst (fst (listRulesets (answering ''x'' (Some (OtherError ''404''))) example_externals ()
       ''zones'' ''abc123'' ())) = Some []
 \<and> snd (fst (getRuleset (answering ''nonsense'' None) example_externals () ''zones'' ''abc123''
       ''r1'' ())) \<noteq> None
 \<and> fst (fst (getRuleset (answering ''nonsense'' None) example_externals () ''zones'' ''abc123''
       ''r1'' ())) = zero_Ruleset
 \<and> snd (fst (createRuleset (answering example_mismatch_body None) example_externals ()
       ''zones'' ''abc123'' example_ruleset ())) \<noteq> None
 \<and> fst (fst (createRuleset (answering example_mismatch_body None) example_externals ()
       ''zones'' ''abc123'' example_ruleset ())) = zero_Ruleset
 \<and> snd (fst (updateRuleset (answering example_bad_time_body None) example_externals ()
       ''zones'' ''abc123'' ''r1'' ''d'' None ())) \<noteq> None
 \<and> fst (fst (updateRuleset (answering example_bad_time_body None) example_externals ()
       ''zones'' ''abc123'' ''r1'' ''d'' None ())) = zero_Ruleset"
proof -
  have a: "snd (fst (listRulesets (answering ''x'' (Some (OtherError ''404''))) example_externals
       () ''zones'' ''abc123'' ())) \<noteq> None"
    by (simp add: listRulesets_def answering_call)
  have b: "snd (fst (getRuleset (answering ''nonsense'' None) example_externals () ''zones''
       ''abc123'' ''r1'' ())) \<noteq> None"
    by (simp add: getRuleset_def answering_call unmarshal_nonsense)
  have c: "snd (fst (createRuleset (answering example_mismatch_body None) example_externals ()
       ''zones'' ''abc123'' example_ruleset ())) \<noteq> None"
    by (simp add: createRuleset_def answering_call unmarshal_mismatch_create)
  have d: "snd (fst (updateRuleset (answering example_bad_time_body None) example_externals ()
       ''zones'' ''abc123'' ''r1'' ''d'' None ())) \<noteq> None"
    by (simp add: updateRuleset_def answering_call unmarshal_bad_time_update)
  note t = error_with_zero_value[where ext = example_externals and ctx = "()"
      and scope = "''zones''" and i = "''abc123''" and w = "()"]
  from t[where api = "answering ''x'' (Some (OtherError ''404''))"] a
  have a': "fst (fst (listRulesets (answering ''x'' (Some (OtherError ''404'')))
      example_externals () ''zones'' ''abc123'' ())) = Some []"
    by blast
  from t[where api = "answering ''nonsense'' None" and rulesetID = "''r1''"] b
  have b': "fst (fst (getRuleset (answering ''nonsense'' None) example_externals () ''zones''
      ''abc123'' ''r1'' ())) = zero_Ruleset"
    by blast
  from t[where api = "answering example_mismatch_body None" and ruleset = example_ruleset] c
  have c': "fst (fst (createRuleset (answering example_mismatch_body None) example_externals ()
      ''zones'' ''abc123'' example_ruleset ())) = zero_Ruleset"
    by blast
  from t[where api = "answering example_bad_time_body None" and rulesetID = "''r1''"
      and description = "''d''" and rules = None] d
  have d': "fst (fst (updateRuleset (answering example_bad_time_body None) example_externals ()
      ''zones'' ''abc123'' ''r1'' ''d'' None ())) = zero_Ruleset"
    by blast
  show ?thesis using a a' b b' c c' d d' by blast
qed

section \<open>Entry points\<close>

text \<open>
  C7. Each zone entry point is the shared implementation at \<^const>\<open>ZoneRouteRoot\<close>, each
  account entry point the shared implementation at \<^const>\<open>AccountRouteRoot\<close>.
\<close>

theorem entry_points_delegate:
  "ListZoneRulesets api ext ctx ident w = listRulesets api ext ctx ZoneRouteRoot ident w
 \<and> ListAccountRulesets api ext ctx ident w = listRulesets api ext ctx AccountRouteRoot ident w
 \<and> GetZoneRuleset api ext ctx ident rulesetID w = getRuleset api ext ctx ZoneRouteRoot ident rulesetID w
 \<and> GetAccountRuleset api ext ctx ident rulesetID w
     = getRuleset api ext ctx AccountRouteRoot ident rulesetID w
 \<and> CreateZoneRuleset api ext ctx ident ruleset w = createRuleset api ext ctx ZoneRouteRoot ident ruleset w
 \<and> CreateAccountRuleset api ext ctx ident ruleset w
     = createRuleset api ext ctx AccountRouteRoot ident ruleset w
 \<and> DeleteZoneRuleset api ext ctx ident rulesetID w
     = deleteRuleset api ext ctx ZoneRouteRoot ident rulesetID w
 \<and> DeleteAccountRuleset api ext ctx ident rulesetID w
     = deleteRuleset api ext ctx AccountRouteRoot ident rulesetID w
 \<and> UpdateZoneRuleset api ext ctx ident rulesetID description rules w
     = updateRuleset api ext ctx ZoneRouteRoot ident rulesetID description rules w
 \<and> UpdateAccountRuleset api ext ctx ident rulesetID description rules w
     = updateRuleset api ext ctx AccountRouteRoot ident rulesetID description rules w"
  by (simp add: ListZoneRulesets_def ListAccountRulesets_def GetZoneRuleset_def
      GetAccountRuleset_def CreateZoneRuleset_def CreateAccountRuleset_def DeleteZoneRuleset_def
      DeleteAccountRuleset_def UpdateZoneRuleset_def UpdateAccountRuleset_def)

section \<open>Encoding a \<^verbatim>\<open>Ruleset\<close> and decoding it back\<close>

text \<open>
  The round trip is stated on the document that \<^verbatim>\<open>json.Marshal\<close> writes, a tree of JSON
  values; \<^verbatim>\<open>json.Unmarshal\<close> decodes that document into a new, zero \<^verbatim>\<open>Ruleset\<close>.
\<close>

lemma names_refl [simp]: "names k k"
  by (simp add: names_def)

lemma decode_encode_string:
  "well_formed s \<Longrightarrow> decode_string (encode_string s) cur saved = Inr (s, saved)"
  by (simp add: decode_string_def encode_string_def well_formed_def)

lemma decode_encode_int: "decode_int (encode_int n) cur saved = Inr (n, saved)"
proof -
  have "sint n < 2 ^ 63" "- (2 ^ 63) \<le> sint n"
    using sint_lt[of n] sint_ge[of n] by simp_all
  then show ?thesis
    by (simp add: decode_int_def encode_int_def Let_def)
qed

lemma decode_members_append:
  "decode_members f (xs @ ys) v saved =
     (case decode_members f xs v saved of
        Inl e \<Rightarrow> Inl e
      | Inr (v', saved') \<Rightarrow> decode_members f ys v' saved')"
  by (induction xs arbitrary: v saved) (auto split: sum.splits)

lemma decode_encode_strings:
  "list_all well_formed ys \<Longrightarrow>
     decode_elements decode_string [] (map encode_string ys) saved = Inr (ys, saved)"
  by (induction ys) (simp_all add: decode_encode_string store_def)

lemma decode_encode_string_slice:
  "nil_or_filled xs \<Longrightarrow> \<not> empty_slice xs \<Longrightarrow>
     decode_slice decode_string [] (encode_slice encode_string xs) cur saved = Inr (xs, saved)"
  by (cases xs)
    (simp_all add: nil_or_filled_def empty_slice_def decode_slice_def encode_slice_def
      decode_encode_strings store_def)

lemma nil_or_filled_empty: "nil_or_filled xs \<Longrightarrow> empty_slice xs \<Longrightarrow> xs = None"
  by (cases xs) (simp_all add: nil_or_filled_def empty_slice_def)

lemmas key_defs = names_def byte_def

lemma decode_encode_URIPath:
  "well_formed (Path_Expression v) \<Longrightarrow>
     decode_struct member_URIPath (encode_URIPath v) zero_URIPath saved = Inr (v, saved)"
  by (cases v)
    (simp add: encode_URIPath_def decode_struct_def omitempty_def member_URIPath_def key_defs
      store_def decode_encode_string zero_URIPath_def)

lemma decode_encode_URIQuery:
  "well_formed (Query_Value v) \<Longrightarrow> well_formed (Query_Expression v) \<Longrightarrow>
     decode_struct member_URIQuery (encode_URIQuery v) zero_URIQuery saved = Inr (v, saved)"
  by (cases v)
    (simp add: encode_URIQuery_def decode_struct_def omitempty_def member_URIQuery_def key_defs
      store_def decode_encode_string zero_URIQuery_def)

lemma decode_encode_URI:
  "returns_URI v \<Longrightarrow>
     decode_struct member_URI (encode_URI v) zero_URI saved = Inr (v, saved)"
  by (cases v)
    (simp add: returns_URI_def encode_URI_def decode_struct_def[of member_URI] omitempty_def
      member_URI_def key_defs store_def decode_encode_URIPath decode_encode_URIQuery
      decode_bool_def zero_URI_def)

lemma decode_encode_HTTPHeader:
  "returns_HTTPHeader v \<Longrightarrow>
     decode_struct member_HTTPHeader (encode_HTTPHeader v) zero_HTTPHeader saved = Inr (v, saved)"
  by (cases v)
    (simp add: returns_HTTPHeader_def encode_HTTPHeader_def decode_struct_def omitempty_def
      member_HTTPHeader_def key_defs store_def decode_encode_string zero_HTTPHeader_def)


lemma decode_encode_header_members:
  assumes "list_all (\<lambda>k. well_formed k \<and> returns_HTTPHeader (the (fmlookup m k))) ks"
  shows "decode_members
           (\<lambda>k j' m' s. store (decode_struct member_HTTPHeader j' zero_HTTPHeader s)
                          (\<lambda>x. fmupd k x m'))
           (map (\<lambda>k. (coerceUTF8 k, encode_HTTPHeader (the (fmlookup m k)))) ks) m0 saved
         = Inr (foldl (\<lambda>acc k. fmupd k (the (fmlookup m k)) acc) m0 ks, saved)"
  using assms
  by (induction ks arbitrary: m0)
    (simp_all add: decode_encode_HTTPHeader store_def well_formed_def)

lemma lookup_rebuilt:
  assumes "set ks \<subseteq> fset (fmdom m)"
  shows "fmlookup (foldl (\<lambda>acc k. fmupd k (the (fmlookup m k)) acc) m0 ks) k'
         = (if k' \<in> set ks then fmlookup m k' else fmlookup m0 k')"
  using assms
proof (induction ks arbitrary: m0)
  case Nil
  then show ?case by simp
next
  case (Cons k ks)
  then have "k |\<in>| fmdom m" by simp
  then have "Some (the (fmlookup m k)) = fmlookup m k"
    by (auto simp: fmlookup_dom_iff)
  with Cons show ?case by auto
qed

lemma map_rebuilt:
  "foldl (\<lambda>acc k. fmupd k (the (fmlookup m k)) acc) fmempty (sorted_list_of_fset (fmdom m)) = m"
proof (rule fmap_ext)
  fix k
  show "fmlookup (foldl (\<lambda>acc k. fmupd k (the (fmlookup m k)) acc) fmempty
                    (sorted_list_of_fset (fmdom m))) k = fmlookup m k"
    by (subst lookup_rebuilt) (auto simp: fmdom_notD)
qed

lemma decode_encode_Headers:
  assumes "returns_Headers hs" and "\<not> empty_map hs"
  shows "decode_map (decode_struct member_HTTPHeader) zero_HTTPHeader
           (encode_map encode_HTTPHeader hs) None saved = Inr (hs, saved)"
proof (cases hs)
  case None
  with assms(2) show ?thesis by (simp add: empty_map_def)
next
  case (Some m)
  with assms(1) have "list_all (\<lambda>k. well_formed k \<and> returns_HTTPHeader (the (fmlookup m k)))
      (sorted_list_of_fset (fmdom m))"
    by (simp add: returns_Headers_def)
  from decode_encode_header_members[OF this, of fmempty saved] Some show ?thesis
    by (simp add: decode_map_def encode_map_def store_def map_rebuilt)
qed

lemma returns_Headers_empty: "returns_Headers hs \<Longrightarrow> empty_map hs \<Longrightarrow> hs = None"
  by (cases hs) (simp_all add: returns_Headers_def empty_map_def)

lemma decode_members_omitempty:
  "decode_members f (omitempty c k j @ ms) v saved =
     (if c then decode_members f ms v saved
      else case f k j v saved of
             Inl e \<Rightarrow> Inl e
           | Inr (v', saved') \<Rightarrow> decode_members f ms v' saved')"
  by (simp add: omitempty_def)

lemma decode_members_omitempty_last:
  "decode_members f (omitempty c k j) v saved =
     (if c then Inr (v, saved)
      else case f k j v saved of
             Inl e \<Rightarrow> Inl e
           | Inr (v', saved') \<Rightarrow> Inr (v', saved'))"
  by (simp add: omitempty_def split: sum.splits)

lemma decode_encode_ActionParameters:
  assumes "returns_ActionParameters v"
  shows "decode_struct member_ActionParameters (encode_ActionParameters v)
           zero_ActionParameters saved = Inr (v, saved)"
proof -
  obtain a b c d e f where v: "v = \<lparr>AP_ID = a, AP_Ruleset = b, AP_Increment = c, AP_URI = d,
      AP_Headers = e, AP_Products = f\<rparr>"
    by (cases v)
  from assms v have wf: "well_formed a" "well_formed b" "returns_URI d" "returns_Headers e"
      "nil_or_filled f"
    by (simp_all add: returns_ActionParameters_def)
  have e: "empty_map e \<Longrightarrow> e = None" using wf(4) by (rule returns_Headers_empty)
  have f: "empty_slice f \<Longrightarrow> f = None" using wf(5) by (rule nil_or_filled_empty)
  show ?thesis
    using wf e f
    by (simp add: v encode_ActionParameters_def decode_struct_def[of member_ActionParameters]
        decode_members_omitempty decode_members_omitempty_last member_ActionParameters_def
        key_defs store_def
        decode_encode_string decode_encode_int decode_encode_URI decode_encode_Headers
        decode_encode_string_slice zero_ActionParameters_def)
      auto
qed

lemma decode_encode_time:
  assumes "time_returns ext g"
  shows "\<exists>lu. encode_time ext k g = Inr lu
           \<and> (case g of
                None \<Rightarrow> lu = []
              | Some x \<Rightarrow>
                  (\<exists>j. lu = [(k, j)] \<and> (\<forall>s. decode_time ext j None s = Inr (Some x, s))))"
proof (cases g)
  case None
  then show ?thesis by (simp add: encode_time_def)
next
  case (Some x)
  with assms obtain j where j: "Time_MarshalJSON ext x = Inr j" "j \<noteq> JNull"
      "Time_UnmarshalJSON ext j = Inr x"
    by (auto simp: time_returns_def split: sum.splits)
  then have "decode_time ext j None s = Inr (Some x, s)" for s
    by (cases j) (simp_all add: decode_time_def)
  with j(1) Some show ?thesis
    by (simp add: encode_time_def)
qed

lemma rule_string_steps:
  "well_formed a \<Longrightarrow> Rule_ID v = [] \<Longrightarrow>
     decode_members (member_RulesetRule ext) (omitempty (a = []) ''id'' (encode_string a) @ ms)
       v saved
     = decode_members (member_RulesetRule ext) ms (v\<lparr>Rule_ID := a\<rparr>) saved"
  "well_formed a \<Longrightarrow> Rule_Version v = [] \<Longrightarrow>
     decode_members (member_RulesetRule ext)
       (omitempty (a = []) ''version'' (encode_string a) @ ms) v saved
     = decode_members (member_RulesetRule ext) ms (v\<lparr>Rule_Version := a\<rparr>) saved"
  "well_formed a \<Longrightarrow> Rule_Ref v = [] \<Longrightarrow>
     decode_members (member_RulesetRule ext) (omitempty (a = []) ''ref'' (encode_string a) @ ms)
       v saved
     = decode_members (member_RulesetRule ext) ms (v\<lparr>Rule_Ref := a\<rparr>) saved"
  "well_formed a \<Longrightarrow>
     decode_members (member_RulesetRule ext) ((''action'', encode_string a) # ms) v saved
     = decode_members (member_RulesetRule ext) ms (v\<lparr>Rule_Action := a\<rparr>) saved"
  "well_formed a \<Longrightarrow>
     decode_members (member_RulesetRule ext) ((''expression'', encode_string a) # ms) v saved
     = decode_members (member_RulesetRule ext) ms (v\<lparr>Rule_Expression := a\<rparr>) saved"
  "well_formed a \<Longrightarrow>
     decode_members (member_RulesetRule ext) ((''description'', encode_string a) # ms) v saved
     = decode_members (member_RulesetRule ext) ms (v\<lparr>Rule_Description := a\<rparr>) saved"
  "decode_members (member_RulesetRule ext) ((''enabled'', JBool b) # ms) v saved
     = decode_members (member_RulesetRule ext) ms (v\<lparr>Rule_Enabled := b\<rparr>) saved"
  by (cases v;
      simp add: omitempty_def member_RulesetRule_def key_defs store_def decode_encode_string
        decode_bool_def)+

lemma rule_other_steps:
  "nil_or_filled k \<Longrightarrow> Rule_Categories v = None \<Longrightarrow>
     decode_members (member_RulesetRule ext)
       (omitempty (empty_slice k) ''categories'' (encode_slice encode_string k) @ ms) v saved
     = decode_members (member_RulesetRule ext) ms (v\<lparr>Rule_Categories := k\<rparr>) saved"
  "Rule_ScoreThreshold v = 0 \<Longrightarrow>
     decode_members (member_RulesetRule ext)
       (omitempty (l = 0) ''score_threshold'' (encode_int l)) v saved
     = Inr (v\<lparr>Rule_ScoreThreshold := l\<rparr>, saved)"
  "(\<And>p. d = Some p \<Longrightarrow> returns_ActionParameters p) \<Longrightarrow> Rule_ActionParameters v = None \<Longrightarrow>
     decode_members (member_RulesetRule ext)
       ((case d of None \<Rightarrow> [] | Some p \<Rightarrow> [(''action_parameters'', encode_ActionParameters p)])
        @ ms) v saved
     = decode_members (member_RulesetRule ext) ms (v\<lparr>Rule_ActionParameters := d\<rparr>) saved"
proof -
  show "decode_members (member_RulesetRule ext)
       (omitempty (empty_slice k) ''categories'' (encode_slice encode_string k) @ ms) v saved
     = decode_members (member_RulesetRule ext) ms (v\<lparr>Rule_Categories := k\<rparr>) saved"
    if "nil_or_filled k" "Rule_Categories v = None"
    using that nil_or_filled_empty[OF that(1)]
    by (cases v)
      (auto simp add: omitempty_def member_RulesetRule_def key_defs store_def
        decode_encode_string_slice)
  show "decode_members (member_RulesetRule ext)
       (omitempty (l = 0) ''score_threshold'' (encode_int l)) v saved
     = Inr (v\<lparr>Rule_ScoreThreshold := l\<rparr>, saved)"
    if "Rule_ScoreThreshold v = 0"
    using that
    by (cases v)
      (simp add: omitempty_def member_RulesetRule_def key_defs store_def decode_encode_int)
  show "decode_members (member_RulesetRule ext)
       ((case d of None \<Rightarrow> [] | Some p \<Rightarrow> [(''action_parameters'', encode_ActionParameters p)])
        @ ms) v saved
     = decode_members (member_RulesetRule ext) ms (v\<lparr>Rule_ActionParameters := d\<rparr>) saved"
    if "\<And>p. d = Some p \<Longrightarrow> returns_ActionParameters p" "Rule_ActionParameters v = None"
  proof (cases d)
    case None
    with that(2) show ?thesis by (cases v) simp
  next
    case (Some p)
    from decode_encode_ActionParameters[OF that(1)[OF Some]]
    have "decode_pointer (decode_struct member_ActionParameters) zero_ActionParameters
             (encode_ActionParameters p) None s = Inr (Some p, s)" for s
      by (simp add: decode_pointer_def store_def encode_ActionParameters_def)
    with Some that(2) show ?thesis
      by (cases v) (simp add: member_RulesetRule_def key_defs store_def)
  qed
qed

lemma decode_encode_RulesetRule:
  assumes "returns_RulesetRule ext v"
  shows "\<exists>j. encode_RulesetRule ext v = Inr j
           \<and> decode_struct (member_RulesetRule ext) j zero_RulesetRule saved = Inr (v, saved)"
proof -
  obtain a b c d e f g h i k l where v: "v = \<lparr>Rule_ID = a, Rule_Version = b, Rule_Action = c,
      Rule_ActionParameters = d, Rule_Expression = e, Rule_Description = f,
      Rule_LastUpdated = g, Rule_Ref = h, Rule_Enabled = i, Rule_Categories = k,
      Rule_ScoreThreshold = l\<rparr>"
    by (cases v)
  from assms v have wf: "well_formed a" "well_formed b" "well_formed c" "well_formed e"
      "well_formed f" "well_formed h" "nil_or_filled k"
    and g: "time_returns ext g"
    and d: "\<And>p. d = Some p \<Longrightarrow> returns_ActionParameters p"
    by (simp_all add: returns_RulesetRule_def)
  from decode_encode_time[OF g, of "''last_updated''"]
  obtain lu where lu: "encode_time ext ''last_updated'' g = Inr lu"
    and lu': "case g of
                None \<Rightarrow> lu = []
              | Some x \<Rightarrow>
                  (\<exists>j. lu = [(''last_updated'', j)]
                     \<and> (\<forall>s. decode_time ext j None s = Inr (Some x, s)))"
    by blast
  have t: "decode_members (member_RulesetRule ext) (lu @ ms) v' saved
           = decode_members (member_RulesetRule ext) ms (v'\<lparr>Rule_LastUpdated := g\<rparr>) saved"
    if "Rule_LastUpdated v' = None" for ms v' saved
    using that lu'
    by (cases v'; cases g) (auto simp add: member_RulesetRule_def key_defs store_def)
  show ?thesis
    using wf d
    by (simp add: v lu encode_RulesetRule_def decode_struct_def[of "member_RulesetRule ext"]
        rule_string_steps rule_other_steps t zero_RulesetRule_def
        del: decode_members.simps)
qed

lemma decode_encode_rule_list:
  assumes "list_all (returns_RulesetRule ext) xs"
  shows "\<exists>js. encode_all (encode_RulesetRule ext) xs = Inr js
           \<and> decode_elements (decode_struct (member_RulesetRule ext)) zero_RulesetRule js saved
               = Inr (xs, saved)"
  using assms
proof (induction xs)
  case Nil
  then show ?case by simp
next
  case (Cons x xs)
  from Cons.prems have "returns_RulesetRule ext x" by simp
  from decode_encode_RulesetRule[OF this, of saved]
  obtain j where j: "encode_RulesetRule ext x = Inr j"
      "decode_struct (member_RulesetRule ext) j zero_RulesetRule saved = Inr (x, saved)"
    by blast
  from Cons obtain js where js: "encode_all (encode_RulesetRule ext) xs = Inr js"
      "decode_elements (decode_struct (member_RulesetRule ext)) zero_RulesetRule js saved
         = Inr (xs, saved)"
    by auto
  from j js show ?case by (simp add: store_def)
qed

lemma decode_encode_Rules:
  assumes "case rs of None \<Rightarrow> True | Some xs \<Rightarrow> list_all (returns_RulesetRule ext) xs"
  shows "\<exists>j. encode_Rules ext rs = Inr j
           \<and> decode_slice (decode_struct (member_RulesetRule ext)) zero_RulesetRule j cur saved
               = Inr (rs, saved)"
proof (cases rs)
  case None
  then show ?thesis by (simp add: encode_Rules_def decode_slice_def)
next
  case (Some xs)
  with assms have "list_all (returns_RulesetRule ext) xs" by simp
  from decode_encode_rule_list[OF this, of saved] Some show ?thesis
    by (auto simp: encode_Rules_def decode_slice_def store_def)
qed

lemma decode_encode_Ruleset:
  assumes "returns_Ruleset ext v"
  shows "\<exists>j. encode_Ruleset ext v = Inr j
           \<and> decode_Ruleset ext j zero_Ruleset saved = Inr (v, saved)"
proof -
  obtain a b c d e g h rs where v: "v = \<lparr>ID = a, Name = b, Description = c, Kind = d,
      Version = e, LastUpdated = g, Phase = h, Rules = rs\<rparr>"
    by (cases v)
  from assms v have wf: "well_formed a" "well_formed b" "well_formed c" "well_formed d"
      "well_formed e" "well_formed h"
    and g: "time_returns ext g"
    and rs: "case rs of None \<Rightarrow> True | Some xs \<Rightarrow> list_all (returns_RulesetRule ext) xs"
    by (simp_all add: returns_Ruleset_def)
  from decode_encode_time[OF g, of "''last_updated''"]
  obtain lu where lu: "encode_time ext ''last_updated'' g = Inr lu"
    and lu': "case g of
                None \<Rightarrow> lu = []
              | Some x \<Rightarrow>
                  (\<exists>j. lu = [(''last_updated'', j)]
                     \<and> (\<forall>s. decode_time ext j None s = Inr (Some x, s)))"
    by blast
  have t: "decode_members (member_Ruleset ext) (lu @ ms) v' saved
           = decode_members (member_Ruleset ext) ms (v'\<lparr>LastUpdated := g\<rparr>) saved"
    if "LastUpdated v' = None" for ms v' saved
    using that lu'
    by (cases v'; cases g) (auto simp add: member_Ruleset_def key_defs store_def)
  from decode_encode_Rules[OF rs, of None saved]
  obtain rj where rj: "encode_Rules ext rs = Inr rj"
      "decode_slice (decode_struct (member_RulesetRule ext)) zero_RulesetRule rj None saved
         = Inr (rs, saved)"
    by blast
  have steps:
    "ID v' = [] \<Longrightarrow>
     decode_members (member_Ruleset ext) (omitempty (a = []) ''id'' (encode_string a) @ ms)
       v' saved
     = decode_members (member_Ruleset ext) ms (v'\<lparr>ID := a\<rparr>) saved"
    "Version v' = [] \<Longrightarrow>
     decode_members (member_Ruleset ext)
       (omitempty (e = []) ''version'' (encode_string e) @ ms) v' saved
     = decode_members (member_Ruleset ext) ms (v'\<lparr>Version := e\<rparr>) saved"
    "decode_members (member_Ruleset ext) ((''name'', encode_string b) # ms) v' saved
     = decode_members (member_Ruleset ext) ms (v'\<lparr>Name := b\<rparr>) saved"
    "decode_members (member_Ruleset ext) ((''description'', encode_string c) # ms) v' saved
     = decode_members (member_Ruleset ext) ms (v'\<lparr>Description := c\<rparr>) saved"
    "decode_members (member_Ruleset ext) ((''kind'', encode_string d) # ms) v' saved
     = decode_members (member_Ruleset ext) ms (v'\<lparr>Kind := d\<rparr>) saved"
    "decode_members (member_Ruleset ext) ((''phase'', encode_string h) # ms) v' saved
     = decode_members (member_Ruleset ext) ms (v'\<lparr>Phase := h\<rparr>) saved"
    for ms v'
    using wf
    by (cases v';
        simp add: omitempty_def member_Ruleset_def key_defs store_def decode_encode_string)+
  have last: "decode_members (member_Ruleset ext) [(''rules'', rj)] v' saved
     = Inr (v'\<lparr>Rules := rs\<rparr>, saved)" if "Rules v' = None" for v'
    using that rj(2) by (cases v') (simp add: member_Ruleset_def key_defs store_def)
  show ?thesis
    by (simp add: v lu rj(1) encode_Ruleset_def decode_Ruleset_def
        decode_struct_def[of "member_Ruleset ext"] steps t last zero_Ruleset_def
        del: decode_members.simps)
qed

lemma singleton_keys: "sorted_list_of_fset (finsert k {||}) = [k]"
  by (simp add: sorted_list_of_fset.rep_eq)

lemmas encode_defs = encode_Ruleset_def encode_Rules_def encode_RulesetRule_def
  encode_ActionParameters_def encode_URI_def encode_URIPath_def encode_URIQuery_def
  encode_HTTPHeader_def encode_map_def encode_slice_def encode_time_def encode_string_def
  encode_int_def omitempty_def empty_slice_def empty_map_def

lemmas example_defs = example_ruleset_def example_rule_def example_full_ruleset_def
  example_full_rule_def example_parameters_def example_header_def example_empty_categories_def
  zero_Ruleset_def zero_RulesetRule_def zero_ActionParameters_def zero_URI_def zero_URIPath_def
  zero_URIQuery_def zero_HTTPHeader_def quoted_def

lemma example_returns: "returns_Ruleset example_externals example_full_ruleset"
  by (simp add: returns_Ruleset_def returns_RulesetRule_def returns_ActionParameters_def
      returns_Headers_def returns_HTTPHeader_def returns_URI_def nil_or_filled_def
      time_returns_def well_formed_def example_defs example_externals_def example_time_def
      is_digit_def rune_tail_def tail_ok_def continuation_def byte_def singleton_keys)

text \<open>
  A rule whose \<^verbatim>\<open>Categories\<close> is the empty slice \<^verbatim>\<open>[]string{}\<close> is written without the member
  \<^verbatim>\<open>categories\<close> (the tag says \<^verbatim>\<open>omitempty\<close>) and comes back with a nil slice; a name holding
  the byte \<^verbatim>\<open>0xFF\<close>, which is not UTF-8, comes back as U+FFFD. Neither \<^verbatim>\<open>Ruleset\<close> comes back
  equal to the original.
\<close>

theorem empty_slice_comes_back_nil:
  "roundtrip example_externals example_empty_categories = Inr example_ruleset
 \<and> example_empty_categories \<noteq> example_ruleset
 \<and> roundtrip example_externals (example_ruleset\<lparr>Name := [CHR 0xFF]\<rparr>)
     = Inr (example_ruleset\<lparr>Name := [CHR 0xEF, CHR 0xBF, CHR 0xBD]\<rparr>)"
  by (simp add: roundtrip_def encode_defs decode_defs example_defs rune_tail_def RuneError_def)

text \<open>
  C4, as amended. A \<^verbatim>\<open>Ruleset\<close> comes back from encoding and decoding equal to the original
  in all fields, the order of the rules and every field of every rule and of its action
  parameters included, when all its strings (map keys too) are well-formed UTF-8, no field
  tagged \<^verbatim>\<open>omitempty\<close> holds an empty slice or map that is not nil, and every time it holds
  is written by \<^verbatim>\<open>MarshalJSON\<close> as a value other than \<^verbatim>\<open>null\<close> that \<^verbatim>\<open>UnmarshalJSON\<close> reads back
  as the same time.
\<close>

theorem roundtrip_returns:
  assumes "returns_Ruleset ext r"
  shows "roundtrip ext r = Inr r"
  using decode_encode_Ruleset[OF assms, of None] by (auto simp: roundtrip_def)

theorem roundtrip_returns_witness:
  "returns_Ruleset example_externals example_full_ruleset
 \<and> roundtrip example_externals example_full_ruleset = Inr example_full_ruleset"
  using roundtrip_returns[OF example_returns] example_returns by simp


section \<open>Results\<close>

text \<open>
  C8. The params of the one call of create are the \<^verbatim>\<open>Ruleset\<close> given. The request body,
  \<^verbatim>\<open>json.Marshal\<close> of these params, is the object with the members \<^verbatim>\<open>id\<close> (unless empty),
  \<^verbatim>\<open>name\<close>, \<^verbatim>\<open>description\<close>, \<^verbatim>\<open>kind\<close>, \<^verbatim>\<open>version\<close> (unless empty), \<^verbatim>\<open>last_updated\<close> (unless
  nil; what \<^verbatim>\<open>MarshalJSON\<close> returns), \<^verbatim>\<open>phase\<close> and \<^verbatim>\<open>rules\<close> (\<^verbatim>\<open>null\<close> for a nil slice, else the
  array of the encoded rules), in this order; there is no body only when a time or a rule
  does not encode; and a \<^verbatim>\<open>Ruleset\<close> that the round trip returns is decoded from this body as
  it was given. For list, get, create and update: if the executor returns no error and
  \<^verbatim>\<open>json.Unmarshal\<close> decodes the response, the operation returns the \<^verbatim>\<open>Result\<close> field of the
  decoded response and no error.
\<close>

theorem result_returned:
  "map (\<lambda>c. snd (snd (snd c)))
     (fst (snd (createRuleset (recording api) ext ctx scope i ruleset ([], w0))))
     = [RulesetParams ruleset]
 \<and> (case request_body ext (RulesetParams ruleset) of
       None \<Rightarrow> False
     | Some (Inl e) \<Rightarrow>
         encode_time ext ''last_updated'' (LastUpdated ruleset) = Inl e
         \<or> encode_Rules ext (Rules ruleset) = Inl e
     | Some (Inr j) \<Rightarrow>
         (\<exists>lu rs.
            (case LastUpdated ruleset of
               None \<Rightarrow> lu = []
             | Some t \<Rightarrow> (\<exists>tj. Time_MarshalJSON ext t = Inr tj \<and> lu = [(''last_updated'', tj)]))
          \<and> (case Rules ruleset of
               None \<Rightarrow> rs = JNull
             | Some xs \<Rightarrow>
                 (\<exists>js. encode_all (encode_RulesetRule ext) xs = Inr js \<and> rs = JArray js))
          \<and> j = JObject
                ((if ID ruleset = [] then [] else [(''id'', JString (coerceUTF8 (ID ruleset)))]) @
                 [(''name'', JString (coerceUTF8 (Name ruleset))),
                  (''description'', JString (coerceUTF8 (Description ruleset))),
                  (''kind'', JString (coerceUTF8 (Kind ruleset)))] @
                 (if Version ruleset = [] then []
                  else [(''version'', JString (coerceUTF8 (Version ruleset)))]) @
                 lu @
                 [(''phase'', JString (coerceUTF8 (Phase ruleset))), (''rules'', rs)])))
 \<and> (returns_Ruleset ext ruleset
    \<longrightarrow> (\<exists>j. request_body ext (RulesetParams ruleset) = Some (Inr j)
           \<and> decode_Ruleset ext j zero_Ruleset None = Inr (ruleset, None)))
 \<and> (makeRequestContext api ctx MethodGet (''/'' @ scope @ ''/'' @ i @ ''/rulesets'') NoParams w
      = ((res, None), w')
    \<and> Unmarshal (decode_struct (member_ListRulesetResponse ext)) res \<lparr>List_Result = None\<rparr>
        = Inr lr
    \<longrightarrow> listRulesets api ext ctx scope i w = ((List_Result lr, None), w'))
 \<and> (makeRequestContext api ctx MethodGet (''/'' @ scope @ ''/'' @ i @ ''/rulesets/'' @ rid)
      NoParams w = ((res, None), w')
    \<and> Unmarshal (decode_struct (member_GetRulesetResponse ext)) res
        \<lparr>Get_Result = zero_Ruleset\<rparr> = Inr gr
    \<longrightarrow> getRuleset api ext ctx scope i rid w = ((Get_Result gr, None), w'))
 \<and> (makeRequestContext api ctx MethodPost (''/'' @ scope @ ''/'' @ i @ ''/rulesets'')
      (RulesetParams ruleset) w = ((res, None), w')
    \<and> Unmarshal (decode_struct (member_CreateRulesetResponse ext)) res
        \<lparr>Create_Result = zero_Ruleset\<rparr> = Inr cr
    \<longrightarrow> createRuleset api ext ctx scope i ruleset w = ((Create_Result cr, None), w'))
 \<and> (makeRequestContext api ctx MethodPut (''/'' @ scope @ ''/'' @ i @ ''/rulesets/'' @ rid)
      (UpdateParams \<lparr>Req_Description = d, Req_Rules = rules\<rparr>) w = ((res, None), w')
    \<and> Unmarshal (decode_struct (member_UpdateRulesetResponse ext)) res
        \<lparr>Update_Result = zero_Ruleset\<rparr> = Inr ur
    \<longrightarrow> updateRuleset api ext ctx scope i rid d rules w = ((Update_Result ur, None), w'))"
proof (intro conjI)
  show "map (\<lambda>c. snd (snd (snd c)))
     (fst (snd (createRuleset (recording api) ext ctx scope i ruleset ([], w0))))
     = [RulesetParams ruleset]"
    by (simp add: create_calls)
  show "case request_body ext (RulesetParams ruleset) of
       None \<Rightarrow> False
     | Some (Inl e) \<Rightarrow>
         encode_time ext ''last_updated'' (LastUpdated ruleset) = Inl e
         \<or> encode_Rules ext (Rules ruleset) = Inl e
     | Some (Inr j) \<Rightarrow>
         (\<exists>lu rs.
            (case LastUpdated ruleset of
               None \<Rightarrow> lu = []
             | Some t \<Rightarrow> (\<exists>tj. Time_MarshalJSON ext t = Inr tj \<and> lu = [(''last_updated'', tj)]))
          \<and> (case Rules ruleset of
               None \<Rightarrow> rs = JNull
             | Some xs \<Rightarrow>
                 (\<exists>js. encode_all (encode_RulesetRule ext) xs = Inr js \<and> rs = JArray js))
          \<and> j = JObject
                ((if ID ruleset = [] then [] else [(''id'', JString (coerceUTF8 (ID ruleset)))]) @
                 [(''name'', JString (coerceUTF8 (Name ruleset))),
                  (''description'', JString (coerceUTF8 (Description ruleset))),
                  (''kind'', JString (coerceUTF8 (Kind ruleset)))] @
                 (if Version ruleset = [] then []
                  else [(''version'', JString (coerceUTF8 (Version ruleset)))]) @
                 lu @
                 [(''phase'', JString (coerceUTF8 (Phase ruleset))), (''rules'', rs)]))"
    by (auto simp: request_body_def encode_Ruleset_def encode_time_def encode_Rules_def
        encode_string_def omitempty_def split: sum.splits option.splits)
  show "returns_Ruleset ext ruleset
    \<longrightarrow> (\<exists>j. request_body ext (RulesetParams ruleset) = Some (Inr j)
           \<and> decode_Ruleset ext j zero_Ruleset None = Inr (ruleset, None))"
    using decode_encode_Ruleset[of ext ruleset None] by (auto simp: request_body_def)
qed (simp_all add: listRulesets_def getRuleset_def createRuleset_def updateRuleset_def)

lemma example_ruleset_returns: "returns_Ruleset example_externals example_ruleset"
  by (simp add: returns_Ruleset_def returns_RulesetRule_def nil_or_filled_def
      time_returns_def well_formed_def example_defs rune_tail_def byte_def)

lemma encode_example_ruleset:
  "request_body example_externals (RulesetParams example_ruleset)
     = Some (Inr (JObject
         [(''name'', JString ''block-bad-bots''), (''description'', JString []),
          (''kind'', JString []), (''phase'', JString ''http_request_firewall_custom''),
          (''rules'', JArray
             [JObject
                [(''action'', JString ''block''),
                 (''expression'', JString (''(http.user_agent contains '' @ quoted ''bot'' @ '')'')),
                 (''description'', JString []), (''enabled'', JBool True)]])]))"
  by (simp add: request_body_def encode_Ruleset_def encode_Rules_def encode_RulesetRule_def
      encode_time_def encode_string_def omitempty_def empty_slice_def example_ruleset_def
      example_rule_def zero_Ruleset_def zero_RulesetRule_def rune_tail_def byte_def quoted_def)

theorem result_returned_witness:
  "request_body example_externals (RulesetParams example_ruleset)
     = Some (Inr (JObject
         [(''name'', JString ''block-bad-bots''), (''description'', JString []),
          (''kind'', JString []), (''phase'', JString ''http_request_firewall_custom''),
          (''rules'', JArray
             [JObject
                [(''action'', JString ''block''),
                 (''expression'', JString (''(http.user_agent contains '' @ quoted ''bot'' @ '')'')),
                 (''description'', JString []), (''enabled'', JBool True)]])]))
 \<and> returns_Ruleset example_externals example_ruleset
 \<and> (\<exists>j. request_body example_externals (RulesetParams example_ruleset) = Some (Inr j)
        \<and> decode_Ruleset example_externals j zero_Ruleset None = Inr (example_ruleset, None))
 \<and> listRulesets (answering example_list_body None) example_externals () ''zones'' ''abc123'' ()
     = ((Some [zero_Ruleset\<lparr>ID := ''a1'', Phase := ''http_request_firewall_custom''\<rparr>,
               zero_Ruleset\<lparr>ID := ''b2'', Phase := ''http_request_transform''\<rparr>], None), ())
 \<and> getRuleset (answering example_ruleset_body None) example_externals () ''zones'' ''abc123''
       ''a1'' ()
     = ((example_ruleset\<lparr>ID := ''a1''\<rparr>, None), ())
 \<and> createRuleset (answering example_ruleset_body None) example_externals () ''zones'' ''abc123''
       example_ruleset ()
     = ((example_ruleset\<lparr>ID := ''a1''\<rparr>, None), ())
 \<and> updateRuleset (answering example_ruleset_body None) example_externals () ''zones'' ''abc123''
       ''a1'' [] (Some [example_rule]) ()
     = ((example_ruleset\<lparr>ID := ''a1''\<rparr>, None), ())"
proof -
  note a = result_returned[where api = "answering example_list_body None"
      and ext = example_externals and res = example_list_body and w' = "()"
      and lr = "\<lparr>List_Result = Some
         [zero_Ruleset\<lparr>ID := ''a1'', Phase := ''http_request_firewall_custom''\<rparr>,
          zero_Ruleset\<lparr>ID := ''b2'', Phase := ''http_request_transform''\<rparr>]\<rparr>"]
  note b = result_returned[where api = "answering example_ruleset_body None"
      and ext = example_externals and res = example_ruleset_body and w' = "()"
      and gr = "\<lparr>Get_Result = example_ruleset\<lparr>ID := ''a1''\<rparr>\<rparr>"
      and cr = "\<lparr>Create_Result = example_ruleset\<lparr>ID := ''a1''\<rparr>\<rparr>"
      and ur = "\<lparr>Update_Result = example_ruleset\<lparr>ID := ''a1''\<rparr>\<rparr>"]
  have "listRulesets (answering example_list_body None) example_externals () ''zones'' ''abc123'' ()
     = ((Some [zero_Ruleset\<lparr>ID := ''a1'', Phase := ''http_request_firewall_custom''\<rparr>,
               zero_Ruleset\<lparr>ID := ''b2'', Phase := ''http_request_transform''\<rparr>], None), ())
 \<and> getRuleset (answering example_ruleset_body None) example_externals () ''zones'' ''abc123''
       ''a1'' ()
     = ((example_ruleset\<lparr>ID := ''a1''\<rparr>, None), ())
 \<and> createRuleset (answering example_ruleset_body None) example_externals () ''zones'' ''abc123''
       example_ruleset ()
     = ((example_ruleset\<lparr>ID := ''a1''\<rparr>, None), ())
 \<and> updateRuleset (answering example_ruleset_body None) example_externals () ''zones'' ''abc123''
       ''a1'' [] (Some [example_rule]) ()
     = ((example_ruleset\<lparr>ID := ''a1''\<rparr>, None), ())"
    using a b by (simp add: answering_call unmarshal_list_body unmarshal_ruleset_body)
  moreover from b example_ruleset_returns
  have "\<exists>j. request_body example_externals (RulesetParams example_ruleset) = Some (Inr j)
        \<and> decode_Ruleset example_externals j zero_Ruleset None = Inr (example_ruleset, None)"
    by blast
  ultimately show ?thesis
    using encode_example_ruleset example_ruleset_returns by blast
qed

section \<open>What makes a response fail to decode\<close>

lemma passes_store [simp]: "passes (store d f) saved = passes d saved"
  by (simp add: passes_def store_def split: sum.splits prod.splits)

lemma passes_Inr [simp]: "passes (Inr (v, s)) saved \<longleftrightarrow> s = saved"
  by (simp add: passes_def)

lemma passes_string: "fits_string j \<Longrightarrow> passes (decode_string j cur saved) saved"
  by (cases j) (simp_all add: fits_string_def decode_string_def)

lemma passes_bool: "fits_bool j \<Longrightarrow> passes (decode_bool j cur saved) saved"
  by (cases j) (simp_all add: fits_bool_def decode_bool_def)

lemma passes_int: "fits_int j \<Longrightarrow> passes (decode_int j cur saved) saved"
  by (cases j) (auto simp add: fits_int_def decode_int_def Let_def split: if_splits)

lemma passes_time: "fits_time ext j \<Longrightarrow> passes (decode_time ext j cur saved) saved"
  by (cases j) (simp_all add: fits_time_def decode_time_def split: sum.splits)

lemma passes_members:
  assumes "list_all (\<lambda>(k, j). \<forall>v. passes (f k j v saved) saved) ms"
  shows "passes (decode_members f ms v saved) saved"
  using assms
proof (induction ms arbitrary: v)
  case Nil
  then show ?case by simp
next
  case (Cons m ms)
  obtain k j where m: "m = (k, j)" by (cases m)
  from Cons.prems m have "passes (f k j v saved) saved" by simp
  then obtain v' where "f k j v saved = Inr (v', saved)"
    by (auto simp: passes_def split: sum.splits)
  with Cons m show ?case by simp
qed

lemma passes_struct:
  assumes "fits_object field j" and "\<And>k j' v. field k j' \<Longrightarrow> passes (f k j' v saved) saved"
  shows "passes (decode_struct f j cur saved) saved"
proof (cases j)
  case (JObject ms)
  with assms(1) have "list_all (\<lambda>(k, j'). field k j') ms" by (simp add: fits_object_def)
  then have "list_all (\<lambda>(k, j). \<forall>v. passes (f k j v saved) saved) ms"
    by (rule list.pred_mono_strong) (auto intro: assms(2))
  then show ?thesis using JObject by (simp add: decode_struct_def passes_members)
qed (use assms(1) in \<open>simp_all add: fits_object_def decode_struct_def\<close>)

lemma passes_elements:
  assumes "list_all fits js" and "\<And>j. fits j \<Longrightarrow> passes (f j z saved) saved"
  shows "passes (decode_elements f z js saved) saved"
  using assms(1)
proof (induction js)
  case Nil
  then show ?case by simp
next
  case (Cons j js)
  then have "passes (f j z saved) saved" by (simp add: assms(2))
  then obtain x where "f j z saved = Inr (x, saved)"
    by (auto simp: passes_def split: sum.splits)
  with Cons show ?case by simp
qed

lemma passes_slice:
  assumes "fits_array fits j" and "\<And>j. fits j \<Longrightarrow> passes (f j z saved) saved"
  shows "passes (decode_slice f z j cur saved) saved"
  using assms
  by (cases j) (simp_all add: fits_array_def decode_slice_def passes_elements)

lemma passes_map:
  assumes "fits_object (\<lambda>k. fits) j" and "\<And>j. fits j \<Longrightarrow> passes (f j z saved) saved"
  shows "passes (decode_map f z j cur saved) saved"
proof (cases j)
  case (JObject ms)
  with assms(1) have "list_all (\<lambda>(k, j'). fits j') ms" by (simp add: fits_object_def)
  then have "list_all (\<lambda>(k, j'). \<forall>m. passes (store (f j' z saved) (\<lambda>x. fmupd k x m)) saved) ms"
    by (rule list.pred_mono_strong) (auto intro: assms(2))
  then show ?thesis using JObject 
    by (simp add: decode_map_def passes_members[where f = "\<lambda>k j' m s. store (f j' z s) (\<lambda>x. fmupd k x m)"])
qed (use assms(1) in \<open>simp_all add: fits_object_def decode_map_def\<close>)

lemma passes_pointer:
  assumes "\<And>v. passes (f j v saved) saved"
  shows "passes (decode_pointer f z j cur saved) saved"
  using assms by (cases j) (simp_all add: decode_pointer_def)

lemma passes_URIPath:
  "field_URIPath k j \<Longrightarrow> passes (member_URIPath k j v saved) saved"
  by (simp add: field_URIPath_def member_URIPath_def passes_string split: if_splits)

lemma passes_URIQuery:
  "field_URIQuery k j \<Longrightarrow> passes (member_URIQuery k j v saved) saved"
  by (simp add: field_URIQuery_def member_URIQuery_def passes_string split: if_splits)

lemma passes_URI:
  "field_URI k j \<Longrightarrow> passes (member_URI k j v saved) saved"
  by (simp add: field_URI_def member_URI_def passes_bool passes_struct[where field = field_URIPath]
      passes_struct[where field = field_URIQuery] passes_URIPath passes_URIQuery
      split: if_splits)

lemma passes_HTTPHeader:
  "field_HTTPHeader k j \<Longrightarrow> passes (member_HTTPHeader k j v saved) saved"
  by (simp add: field_HTTPHeader_def member_HTTPHeader_def passes_string split: if_splits)

lemma passes_ActionParameters:
  "field_ActionParameters k j \<Longrightarrow> passes (member_ActionParameters k j v saved) saved"
  by (simp add: field_ActionParameters_def member_ActionParameters_def passes_string passes_int
      passes_struct[where field = field_URI] passes_URI
      passes_map[where fits = "fits_object field_HTTPHeader"]
      passes_struct[where field = field_HTTPHeader] passes_HTTPHeader
      passes_slice[where fits = fits_string]
      split: if_splits)

lemma passes_RulesetRule:
  "field_RulesetRule ext k j \<Longrightarrow> passes (member_RulesetRule ext k j v saved) saved"
  by (simp add: field_RulesetRule_def member_RulesetRule_def passes_string passes_int passes_bool
      passes_time passes_pointer passes_struct[where field = field_ActionParameters]
      passes_ActionParameters passes_slice[where fits = fits_string]
      split: if_splits)

lemma passes_Ruleset:
  "field_Ruleset ext k j \<Longrightarrow> passes (member_Ruleset ext k j v saved) saved"
  by (simp add: field_Ruleset_def member_Ruleset_def passes_string passes_time
      passes_slice[where fits = "fits_object (field_RulesetRule ext)"]
      passes_struct[where field = "field_RulesetRule ext"] passes_RulesetRule
      split: if_splits)


lemma passes_ListRulesetResponse:
  "field_ListRulesetResponse ext k j \<Longrightarrow>
     passes (member_ListRulesetResponse ext k j v saved) saved"
  by (simp add: field_ListRulesetResponse_def member_ListRulesetResponse_def decode_Ruleset_def
      embedded_Response_def Response_takes_def
      passes_slice[where fits = "fits_object (field_Ruleset ext)"]
      passes_struct[where field = "field_Ruleset ext"] passes_Ruleset
      split: if_splits)

lemma passes_GetRulesetResponse:
  "field_RulesetResponse ext k j \<Longrightarrow>
     passes (member_GetRulesetResponse ext k j v saved) saved"
  by (simp add: field_RulesetResponse_def member_GetRulesetResponse_def decode_Ruleset_def
      embedded_Response_def Response_takes_def
      passes_struct[where field = "field_Ruleset ext"] passes_Ruleset
      split: if_splits)

lemma passes_CreateRulesetResponse:
  "field_RulesetResponse ext k j \<Longrightarrow>
     passes (member_CreateRulesetResponse ext k j v saved) saved"
  by (simp add: field_RulesetResponse_def member_CreateRulesetResponse_def decode_Ruleset_def
      embedded_Response_def Response_takes_def
      passes_struct[where field = "field_Ruleset ext"] passes_Ruleset
      split: if_splits)

lemma passes_UpdateRulesetResponse:
  "field_RulesetResponse ext k j \<Longrightarrow>
     passes (member_UpdateRulesetResponse ext k j v saved) saved"
  by (simp add: field_RulesetResponse_def member_UpdateRulesetResponse_def decode_Ruleset_def
      embedded_Response_def Response_takes_def
      passes_struct[where field = "field_Ruleset ext"] passes_Ruleset
      split: if_splits)

lemma Unmarshal_passes:
  assumes "json_parse res = Some j" and "passes (dec j v None) None"
  shows "\<exists>v'. dec j v None = Inr (v', None) \<and> Unmarshal dec res v = Inr v'"
  using assms by (auto simp: Unmarshal_def passes_def split: sum.splits)

lemma members_unchanged:
  assumes "list_all (\<lambda>(k, j). \<forall>s. f k j v s = Inr (v, s)) ms"
  shows "decode_members f ms v saved = Inr (v, saved)"
  using assms by (induction ms arbitrary: saved) auto

lemma struct_unchanged:
  assumes "fits_object field j" and "lacks_result j"
    and "\<And>k j' s. field k j' \<Longrightarrow> \<not> names k ''result'' \<Longrightarrow> f k j' v s = Inr (v, s)"
  shows "decode_struct f j v saved = Inr (v, saved)"
proof (cases j)
  case (JObject ms)
  with assms(1,2) have "list_all (\<lambda>(k, j'). field k j' \<and> \<not> names k ''result'') ms"
    by (auto simp: fits_object_def lacks_result_def list_all_iff)
  then have "list_all (\<lambda>(k, j). \<forall>s. f k j v s = Inr (v, s)) ms"
    by (rule list.pred_mono_strong) (auto intro: assms(3))
  then show ?thesis using JObject by (simp add: decode_struct_def members_unchanged)
qed (use assms(1) in \<open>simp_all add: fits_object_def decode_struct_def\<close>)

lemma list_without_result:
  assumes "fits_object (field_ListRulesetResponse ext) j" and "lacks_result j"
  shows "decode_struct (member_ListRulesetResponse ext) j v saved = Inr (v, saved)"
  by (rule struct_unchanged[OF assms])
    (simp add: field_ListRulesetResponse_def member_ListRulesetResponse_def
      embedded_Response_def Response_takes_def)

lemma get_without_result:
  assumes "fits_object (field_RulesetResponse ext) j" and "lacks_result j"
  shows "decode_struct (member_GetRulesetResponse ext) j v saved = Inr (v, saved)"
  by (rule struct_unchanged[OF assms])
    (simp add: field_RulesetResponse_def member_GetRulesetResponse_def
      embedded_Response_def Response_takes_def)

lemma create_without_result:
  assumes "fits_object (field_RulesetResponse ext) j" and "lacks_result j"
  shows "decode_struct (member_CreateRulesetResponse ext) j v saved = Inr (v, saved)"
  by (rule struct_unchanged[OF assms])
    (simp add: field_RulesetResponse_def member_CreateRulesetResponse_def
      embedded_Response_def Response_takes_def)

lemma update_without_result:
  assumes "fits_object (field_RulesetResponse ext) j" and "lacks_result j"
  shows "decode_struct (member_UpdateRulesetResponse ext) j v saved = Inr (v, saved)"
  by (rule struct_unchanged[OF assms])
    (simp add: field_RulesetResponse_def member_UpdateRulesetResponse_def
      embedded_Response_def Response_takes_def)

lemma list_fits:
  assumes "json_parse res = Some j" and "fits_object (field_ListRulesetResponse ext) j"
    and "makeRequestContext api ctx MethodGet (''/'' @ scope @ ''/'' @ i @ ''/rulesets'')
           NoParams w = ((res, None), w')"
  shows "snd (fst (listRulesets api ext ctx scope i w)) = None
       \<and> (lacks_result j \<longrightarrow> fst (fst (listRulesets api ext ctx scope i w)) = None)"
proof -
  have "passes (decode_struct (member_ListRulesetResponse ext) j \<lparr>List_Result = None\<rparr> None) None"
    by (rule passes_struct[OF assms(2)]) (rule passes_ListRulesetResponse)
  from Unmarshal_passes[where dec = "decode_struct (member_ListRulesetResponse ext)", OF assms(1) this]
    list_without_result[OF assms(2)] assms(3)
  show ?thesis by (auto simp: listRulesets_def)
qed

lemma get_fits:
  assumes "json_parse res = Some j" and "fits_object (field_RulesetResponse ext) j"
    and "makeRequestContext api ctx MethodGet (''/'' @ scope @ ''/'' @ i @ ''/rulesets/'' @ rid)
           NoParams w = ((res, None), w')"
  shows "snd (fst (getRuleset api ext ctx scope i rid w)) = None
       \<and> (lacks_result j \<longrightarrow> fst (fst (getRuleset api ext ctx scope i rid w)) = zero_Ruleset)"
proof -
  have "passes (decode_struct (member_GetRulesetResponse ext) j
          \<lparr>Get_Result = zero_Ruleset\<rparr> None) None"
    by (rule passes_struct[OF assms(2)]) (rule passes_GetRulesetResponse)
  from Unmarshal_passes[where dec = "decode_struct (member_GetRulesetResponse ext)", OF assms(1) this]
    get_without_result[OF assms(2)] assms(3)
  show ?thesis by (auto simp: getRuleset_def)
qed

lemma create_fits:
  assumes "json_parse res = Some j" and "fits_object (field_RulesetResponse ext) j"
    and "makeRequestContext api ctx MethodPost (''/'' @ scope @ ''/'' @ i @ ''/rulesets'')
           (RulesetParams ruleset) w = ((res, None), w')"
  shows "snd (fst (createRuleset api ext ctx scope i ruleset w)) = None
       \<and> (lacks_result j
          \<longrightarrow> fst (fst (createRuleset api ext ctx scope i ruleset w)) = zero_Ruleset)"
proof -
  have "passes (decode_struct (member_CreateRulesetResponse ext) j
          \<lparr>Create_Result = zero_Ruleset\<rparr> None) None"
    by (rule passes_struct[OF assms(2)]) (rule passes_CreateRulesetResponse)
  from Unmarshal_passes[where dec = "decode_struct (member_CreateRulesetResponse ext)", OF assms(1) this]
    create_without_result[OF assms(2)] assms(3)
  show ?thesis by (auto simp: createRuleset_def)
qed

lemma update_fits:
  assumes "json_parse res = Some j" and "fits_object (field_RulesetResponse ext) j"
    and "makeRequestContext api ctx MethodPut (''/'' @ scope @ ''/'' @ i @ ''/rulesets/'' @ rid)
           (UpdateParams \<lparr>Req_Description = d, Req_Rules = rules\<rparr>) w = ((res, None), w')"
  shows "snd (fst (updateRuleset api ext ctx scope i rid d rules w)) = None
       \<and> (lacks_result j
          \<longrightarrow> fst (fst (updateRuleset api ext ctx scope i rid d rules w)) = zero_Ruleset)"
proof -
  have "passes (decode_struct (member_UpdateRulesetResponse ext) j
          \<lparr>Update_Result = zero_Ruleset\<rparr> None) None"
    by (rule passes_struct[OF assms(2)]) (rule passes_UpdateRulesetResponse)
  from Unmarshal_passes[where dec = "decode_struct (member_UpdateRulesetResponse ext)", OF assms(1) this]
    update_without_result[OF assms(2)] assms(3)
  show ?thesis by (auto simp: updateRuleset_def)
qed

lemma parse_yesterday_body:
  "json_parse example_yesterday_body
     = Some (JObject [(''result'', JObject [(''last_updated'', JString ''yesterday'')])])"
  by (simp add: scan_defs example_yesterday_body_def)

text \<open>
  A response that is well-formed JSON and gives \<^verbatim>\<open>last_updated\<close> a string, the JSON type a
  time is written in, still fails to decode when the string is not a time: the error of
  \<^verbatim>\<open>UnmarshalJSON\<close> is returned, wrapped. So a decode error has a third cause, besides
  malformed bytes and a value of another JSON type than the field's.
\<close>

theorem time_text_refused:
  "json_parse example_yesterday_body
     = Some (JObject [(''result'', JObject [(''last_updated'', JString ''yesterday'')])])
 \<and> fits_string (JString ''yesterday'')
 \<and> getRuleset (answering example_yesterday_body None) example_externals () ''zones'' ''abc123''
       ''r1'' ()
     = ((zero_Ruleset,
         Some (errors_Wrap (OtherError ''parsing time: cannot parse'')
                 ''error unmarshalling the JSON response'')), ())"
  by (simp add: parse_yesterday_body fits_string_def getRuleset_def answering_call Unmarshal_def
      decode_defs example_time_def is_digit_def zero_Ruleset_def)

text \<open>
  C10, as amended. For list, get, create and update, when the executor returns no error
  and the response is well-formed JSON: if every member that names a field has a value that
  fits it (\<^verbatim>\<open>null\<close>, or the field's JSON type, an integer literal within 64 bits for an int,
  a value that \<^verbatim>\<open>UnmarshalJSON\<close> accepts for a time, a member that the embedded \<^verbatim>\<open>Response\<close>
  takes), the operation returns no error, whatever members are missing or unknown; and if
  moreover no member is named \<^verbatim>\<open>result\<close>, it returns the zero value (a nil slice for list,
  the zero \<^verbatim>\<open>Ruleset\<close> otherwise). The body \<^verbatim>\<open>{}\<close> is such a response.
\<close>

theorem decode_error_causes:
  assumes "json_parse res = Some j"
  shows
   "(fits_object (field_ListRulesetResponse ext) j
     \<and> makeRequestContext api ctx MethodGet (''/'' @ scope @ ''/'' @ i @ ''/rulesets'') NoParams w
         = ((res, None), w')
     \<longrightarrow> snd (fst (listRulesets api ext ctx scope i w)) = None
       \<and> (lacks_result j \<longrightarrow> fst (fst (listRulesets api ext ctx scope i w)) = None))
 \<and> (fits_object (field_RulesetResponse ext) j
     \<and> makeRequestContext api ctx MethodGet (''/'' @ scope @ ''/'' @ i @ ''/rulesets/'' @ rid)
         NoParams w = ((res, None), w')
     \<longrightarrow> snd (fst (getRuleset api ext ctx scope i rid w)) = None
       \<and> (lacks_result j \<longrightarrow> fst (fst (getRuleset api ext ctx scope i rid w)) = zero_Ruleset))
 \<and> (fits_object (field_RulesetResponse ext) j
     \<and> makeRequestContext api ctx MethodPost (''/'' @ scope @ ''/'' @ i @ ''/rulesets'')
         (RulesetParams ruleset) w = ((res, None), w')
     \<longrightarrow> snd (fst (createRuleset api ext ctx scope i ruleset w)) = None
       \<and> (lacks_result j
          \<longrightarrow> fst (fst (createRuleset api ext ctx scope i ruleset w)) = zero_Ruleset))
 \<and> (fits_object (field_RulesetResponse ext) j
     \<and> makeRequestContext api ctx MethodPut (''/'' @ scope @ ''/'' @ i @ ''/rulesets/'' @ rid)
         (UpdateParams \<lparr>Req_Description = d, Req_Rules = rules\<rparr>) w = ((res, None), w')
     \<longrightarrow> snd (fst (updateRuleset api ext ctx scope i rid d rules w)) = None
       \<and> (lacks_result j
          \<longrightarrow> fst (fst (updateRuleset api ext ctx scope i rid d rules w)) = zero_Ruleset))"
  using list_fits[OF assms, where ext = ext and api = api and ctx = ctx and scope = scope
      and i = i and w = w and w' = w']
    get_fits[OF assms, where ext = ext and api = api and ctx = ctx and scope = scope
      and i = i and rid = rid and w = w and w' = w']
    create_fits[OF assms, where ext = ext and api = api and ctx = ctx and scope = scope
      and i = i and ruleset = ruleset and w = w and w' = w']
    update_fits[OF assms, where ext = ext and api = api and ctx = ctx and scope = scope
      and i = i and rid = rid and d = d and rules = rules and w = w and w' = w']
  by blast

lemma fits_list_body:
  "fits_object (field_ListRulesetResponse example_externals)
     (JObject
       [(''success'', JBool True), (''errors'', JArray []), (''messages'', JArray []),
        (''result'', JArray
           [JObject [(''id'', JString ''a1''), (''phase'', JString ''http_request_firewall_custom'')],
            JObject [(''id'', JString ''b2''), (''phase'', JString ''http_request_transform'')]])])"
  by (simp add: fits_object_def fits_array_def fits_string_def field_ListRulesetResponse_def
      field_Ruleset_def Response_takes_def decode_defs)

lemma fits_no_result_body:
  "fits_object (field_RulesetResponse example_externals)
     (JObject [(''success'', JBool True),
               (''unknown'', JArray [JNumber False 2 [], JNumber False 3 []])])"
  "lacks_result
     (JObject [(''success'', JBool True),
               (''unknown'', JArray [JNumber False 2 [], JNumber False 3 []])])"
  by (simp_all add: fits_object_def lacks_result_def field_RulesetResponse_def
      Response_takes_def decode_defs)

lemma fits_empty_object:
  "fits_object field (JObject [])" "lacks_result (JObject [])"
  by (simp_all add: fits_object_def lacks_result_def)

theorem decode_error_causes_witness:
  "snd (fst (listRulesets (answering example_list_body None) example_externals () ''zones''
       ''abc123'' ())) = None
 \<and> listRulesets (answering ''{}'' None) example_externals () ''zones'' ''abc123'' ()
     = ((None, None), ())
 \<and> getRuleset (answering ''{}'' None) example_externals () ''zones'' ''abc123'' ''r1'' ()
     = ((zero_Ruleset, None), ())
 \<and> createRuleset (answering example_no_result_body None) example_externals () ''accounts''
       ''abc123'' example_ruleset ()
     = ((zero_Ruleset, None), ())
 \<and> updateRuleset (answering example_no_result_body None) example_externals () ''accounts''
       ''abc123'' ''r1'' ''d'' None ()
     = ((zero_Ruleset, None), ())"
proof -
  note a = decode_error_causes[OF parse_list_body, where ext = example_externals
      and api = "answering example_list_body None" and ctx = "()" and scope = "''zones''"
      and i = "''abc123''" and w = "()" and w' = "()"]
  note b = decode_error_causes[OF parse_empty_object, where ext = example_externals
      and api = "answering ''{}'' None" and ctx = "()" and scope = "''zones''"
      and i = "''abc123''" and rid = "''r1''" and w = "()" and w' = "()"]
  note c = decode_error_causes[OF parse_no_result_body, where ext = example_externals
      and api = "answering example_no_result_body None" and ctx = "()"
      and scope = "''accounts''" and i = "''abc123''" and rid = "''r1''"
      and ruleset = example_ruleset and d = "''d''" and rules = None and w = "()" and w' = "()"]
  have u: "x = ((a, b), ())" if "snd (fst x) = b" "fst (fst x) = a"
    for x :: "('a \<times> 'b) \<times> unit" and a b
    using that by (cases x) auto
  from a have a': "snd (fst (listRulesets (answering example_list_body None) example_externals ()
      ''zones'' ''abc123'' ())) = None"
    by (simp add: answering_call fits_list_body)
  from b have b1: "listRulesets (answering ''{}'' None) example_externals () ''zones'' ''abc123'' ()
      = ((None, None), ())"
    by (intro u) (simp_all add: answering_call fits_empty_object)
  from b have b2: "getRuleset (answering ''{}'' None) example_externals () ''zones'' ''abc123''
      ''r1'' () = ((zero_Ruleset, None), ())"
    by (intro u) (simp_all add: answering_call fits_empty_object)
  from c have c1: "createRuleset (answering example_no_result_body None) example_externals ()
      ''accounts'' ''abc123'' example_ruleset () = ((zero_Ruleset, None), ())"
    by (intro u) (simp_all add: answering_call fits_no_result_body)
  from c have c2: "updateRuleset (answering example_no_result_body None) example_externals ()
      ''accounts'' ''abc123'' ''r1'' ''d'' None () = ((zero_Ruleset, None), ())"
    by (intro u) (simp_all add: answering_call fits_no_result_body)
  show ?thesis
    using a' b1 b2 c1 c2 by simp
qed

end
